theory Spec2Isabelle
  imports Main "HOL-Library.Multiset" "HOL-Library.Product_Lexorder"
begin

section \<open>Notion pages and the values read from them\<close>

text \<open>
  A Notion page carries an id and a sparse bag of typed properties. Each property
  object has a \<^verbatim>\<open>type\<close> tag and a payload under the key of that name; the model
  joins tag and payload into one constructor. A payload that is \<^verbatim>\<open>null\<close> or
  missing is \<open>None\<close>.

  Strings are byte lists; the few non-ASCII characters the code prints are written as
  their UTF-8 bytes.
\<close>

record date_value =
  start :: "string option"
  end_date :: "string option"
  time_zone :: "string option"

datatype property =
    DateProp "date_value option"
  | StatusProp "string option"
  | SelectProp "string option"
  | RelationProp "string list"
  | TitleProp "string list"
  | OtherProp

record page =
  page_id :: string
  properties :: "string \<rightharpoonup> property"

text \<open>What \<^verbatim>\<open>readProp\<close> can return: \<^verbatim>\<open>null\<close>, a date object, a string, or a list of ids.\<close>

datatype jsval = Null | DateV date_value | Str string | Ids "string list"

text \<open>JavaScript truthiness of such a value: \<^verbatim>\<open>null\<close> and the empty string are falsy.\<close>

fun truthy :: "jsval \<Rightarrow> bool" where
  "truthy Null = False"
| "truthy (Str s) = (s \<noteq> [])"
| "truthy (DateV d) = True"
| "truthy (Ids l) = True"

text \<open>\<^verbatim>\<open>x?.name || null\<close> on an optional string.\<close>

definition nameOrNull :: "string option \<Rightarrow> jsval" where
  "nameOrNull n = (case n of None \<Rightarrow> Null | Some s \<Rightarrow> if s = [] then Null else Str s)"

definition readProp :: "page \<Rightarrow> string \<Rightarrow> jsval" where
  "readProp pg key =
     (case properties pg key of
        None \<Rightarrow> Null
      | Some (DateProp d) \<Rightarrow> (case d of None \<Rightarrow> Null | Some dv \<Rightarrow> DateV dv)
      | Some (StatusProp s) \<Rightarrow> nameOrNull s
      | Some (SelectProp s) \<Rightarrow> nameOrNull s
      | Some (RelationProp r) \<Rightarrow> Ids r
      | Some (TitleProp t) \<Rightarrow> Str (concat t)
      | Some OtherProp \<Rightarrow> Null)"

text \<open>\<^verbatim>\<open>v || fallback\<close>.\<close>

definition orElse :: "jsval \<Rightarrow> jsval \<Rightarrow> jsval" where
  "orElse v fallback = (if truthy v then v else fallback)"

text \<open>
  \<^verbatim>\<open>readProp(p, key)?.start\<close>: only a date object has a \<^verbatim>\<open>start\<close>; on anything
  else the read gives \<^verbatim>\<open>undefined\<close>, which like \<^verbatim>\<open>null\<close> is \<open>None\<close> here.
\<close>

definition rawStart :: "jsval \<Rightarrow> string option" where
  "rawStart v = (case v of DateV d \<Rightarrow> start d | _ \<Rightarrow> None)"

text \<open>Truthiness of an optional string, and \<^verbatim>\<open>a || b\<close> on two of them.\<close>

definition strTruthy :: "string option \<Rightarrow> bool" where
  "strTruthy a = (case a of None \<Rightarrow> False | Some s \<Rightarrow> s \<noteq> [])"

definition orStr :: "string option \<Rightarrow> string option \<Rightarrow> string option" where
  "orStr a b = (if strTruthy a then a else b)"

text \<open>\<^verbatim>\<open>readProp(p, key)?.start || null\<close>.\<close>

definition startOf :: "jsval \<Rightarrow> string option" where
  "startOf v = orStr (rawStart v) None"

text \<open>String coercion of a value inside a template literal or as a property key.\<close>

fun joinWith :: "string \<Rightarrow> string list \<Rightarrow> string" where
  "joinWith sep [] = []"
| "joinWith sep [x] = x"
| "joinWith sep (x # y # ys) = x @ sep @ joinWith sep (y # ys)"

fun toStr :: "jsval \<Rightarrow> string" where
  "toStr Null = ''null''"
| "toStr (Str s) = s"
| "toStr (Ids l) = joinWith '','' l"
| "toStr (DateV d) = ''[object Object]''"

section \<open>The host: dates and their formatting\<close>

text \<open>
  A \<^verbatim>\<open>Date\<close> object holds a time value in milliseconds since the epoch, or NaN
  (an invalid date). Parsing and locale formatting are built-ins of the JavaScript
  host, taken as parameters:
  \<^item> \<open>dateParse\<close> is \<^verbatim>\<open>Date.parse\<close>, with \<open>None\<close> for NaN;
  \<^item> \<open>timeLabel\<close> is \<^verbatim>\<open>toLocaleString('en-US', {timeZone: TZ, hour: 'numeric',
    minute: '2-digit'})\<close> (and \<^verbatim>\<open>toLocaleTimeString\<close> with the same options, which
    formats the same fields).
\<close>

datatype date = Date int | InvalidDate

record host =
  dateParse :: "string \<Rightarrow> int option"
  timeLabel :: "date \<Rightarrow> string"

text \<open>\<^verbatim>\<open>new Date(iso)\<close>: the parsed time value, clipped to the range a date can hold.\<close>

definition newDate :: "host \<Rightarrow> string \<Rightarrow> date" where
  "newDate h iso_s =
     (case dateParse h iso_s of
        None \<Rightarrow> InvalidDate
      | Some t \<Rightarrow> if \<bar>t\<bar> \<le> 8640000000000000 then Date t else InvalidDate)"

text \<open>Relational comparison of a date with a time value: false on an invalid date.\<close>

fun dateLt :: "date \<Rightarrow> int \<Rightarrow> bool" where
  "dateLt (Date t) n = (t < n)"
| "dateLt InvalidDate n = False"

fun dateGt :: "date \<Rightarrow> int \<Rightarrow> bool" where
  "dateGt (Date t) n = (t > n)"
| "dateGt InvalidDate n = False"

section \<open>Coach helpers\<close>

definition emDash :: string where
  "emDash = [CHR 0xE2, CHR 0x80, CHR 0x94]"

definition bullet :: string where
  "bullet = [CHR 0xE2, CHR 0x80, CHR 0xA2]"

definition enDash :: string where
  "enDash = [CHR 0xE2, CHR 0x80, CHR 0x93]"

definition coachWhyMatters :: "page \<Rightarrow> string" where
  "coachWhyMatters pg =
     (let t = orElse (readProp pg ''Type'') (Str []);
          pr = orElse (readProp pg ''Priority Level'') (Str [])
      in if pr = Str ''HIGH'' then ''High-impact lever '' @ emDash @ '' moves a top outcome forward.''
         else if t = Str ''Event'' then ''Time-bound; missing it creates downstream delays.''
         else if t = Str ''Call'' then ''Maintains momentum and unblocks next steps.''
         else ''Keeps your cadence strong and reduces task spillover.'')"

definition coachNextMove :: "page \<Rightarrow> string" where
  "coachNextMove pg =
     (let t = orElse (readProp pg ''Type'') (Str [])
      in if t = Str ''Call'' then ''Confirm agenda + dial in five minutes early.''
         else if t = Str ''Event'' then ''Skim notes + prep one question to ask.''
         else ''Define the first 10-minute action and start it.'')"

definition coachFixNow :: string where
  "coachFixNow = ''Do the smallest unblocked step right now and log it in the page.''"

definition tsLocal :: "host \<Rightarrow> string option \<Rightarrow> date option" where
  "tsLocal h iso_s = (case iso_s of None \<Rightarrow> None | Some s \<Rightarrow> Some (newDate h s))"

record primary_when =
  which :: string
  iso :: "string option"
  date :: "date option"

definition getPrimaryWhen :: "host \<Rightarrow> page \<Rightarrow> primary_when" where
  "getPrimaryWhen h pg =
     (let dd = startOf (readProp pg ''Do Date'');
          due = startOf (readProp pg ''Due Date'');
          w = (if dd \<noteq> None then ''do'' else ''due'');
          pick = (if dd \<noteq> None then dd else due)
      in \<lparr> which = w, iso = pick, date = tsLocal h pick \<rparr>)"

record coach_line =
  line_id :: string
  line :: string
  why :: string
  nextMove :: string
  fixNow :: string
  suggestReminder :: bool

definition asCoachLine :: "host \<Rightarrow> page \<Rightarrow> string \<Rightarrow> int \<Rightarrow> coach_line" where
  "asCoachLine h pg wh now =
     (let name = orElse (readProp pg ''Name'') (Str ''(Untitled)'');
          type = orElse (readProp pg ''Type'') (Str []);
          alignment = orElse (readProp pg ''Alignment'') (Str []);
          status = orElse (readProp pg ''Status'') (Str []);
          dd = startOf (readProp pg ''Do Date'');
          due = startOf (readProp pg ''Due Date'');
          label = (if wh = ''do'' then ''Do'' else ''Due'');
          dtISO = (if wh = ''do'' then dd else due);
          dt = (case dtISO of None \<Rightarrow> None | Some s \<Rightarrow> Some (newDate h s));
          timeLbl = (case dt of None \<Rightarrow> ''no time'' | Some d \<Rightarrow> timeLabel h d)
      in \<lparr> line_id = page_id pg,
           line = ''**'' @ toStr name @ ''** '' @ emDash @ '' '' @ label @ '' '' @ bullet @ '' ''
                  @ timeLbl
                  @ (if truthy type then '' '' @ emDash @ '' '' @ toStr type else [])
                  @ (if truthy alignment then '' '' @ emDash @ '' '' @ toStr alignment else [])
                  @ '' '' @ emDash @ '' Status: '' @ toStr (orElse status (Str ''N/A'')),
           why = coachWhyMatters pg,
           nextMove = coachNextMove pg,
           fixNow = coachFixNow,
           suggestReminder = (case dt of None \<Rightarrow> False | Some d \<Rightarrow> dateGt d now) \<rparr>)"

section \<open>Numbers\<close>

text \<open>
  The numbers the analyses compute with: a time value, \<^verbatim>\<open>Infinity\<close>, or NaN
  (the time of an invalid date). \<open>numLt\<close> is \<^verbatim>\<open><\<close> against a finite number.
\<close>

datatype number = Num int | Infinity | NaN

text \<open>\<^verbatim>\<open>d.getTime()\<close> of a date object.\<close>

fun dateGetTime :: "date \<Rightarrow> number" where
  "dateGetTime (Date t) = Num t"
| "dateGetTime InvalidDate = NaN"

fun numLt :: "number \<Rightarrow> int \<Rightarrow> bool" where
  "numLt (Num t) n = (t < n)"
| "numLt Infinity n = False"
| "numLt NaN n = False"

section \<open>Plain objects as dictionaries\<close>

text \<open>
  The code uses object literals as lookup tables and as a counting dictionary. A read
  \<^verbatim>\<open>obj[key]\<close> that finds no own property goes on to \<^verbatim>\<open>Object.prototype\<close>; these
  are the names it finds there. All of them are functions but \<^verbatim>\<open>__proto__\<close>, an
  accessor that gives the prototype object itself.
\<close>

definition objectPrototypeNames :: "string list" where
  "objectPrototypeNames =
     [''constructor'', ''__defineGetter__'', ''__defineSetter__'', ''hasOwnProperty'',
      ''__lookupGetter__'', ''__lookupSetter__'', ''isPrototypeOf'', ''propertyIsEnumerable'',
      ''toString'', ''valueOf'', ''__proto__'', ''toLocaleString'']"

section \<open>Daily focus\<close>

subsection \<open>Sorting\<close>

text \<open>
  \<^verbatim>\<open>Array.prototype.sort\<close> is stable. It reads a comparator result \<open>v\<close> by its sign,
  taking NaN as \<open>+0\<close>; \<open>notAfter v\<close> says that the first argument need not come after
  the second. For a consistent comparator the result of a stable sort is unique, and
  insertion from the right computes it. A comparator that returns NaN on some pairs
  (here: only when a date is invalid) leaves the order to the engine; the model then
  still inserts from the right.
\<close>

fun notAfter :: "number \<Rightarrow> bool" where
  "notAfter (Num n) = (n \<le> 0)"
| "notAfter NaN = True"
| "notAfter Infinity = False"

fun insertBy :: "('a \<Rightarrow> 'a \<Rightarrow> number) \<Rightarrow> 'a \<Rightarrow> 'a list \<Rightarrow> 'a list" where
  "insertBy cmp x [] = [x]"
| "insertBy cmp x (y # ys) = (if notAfter (cmp x y) then x # y # ys else y # insertBy cmp x ys)"

definition arraySort :: "('a \<Rightarrow> 'a \<Rightarrow> number) \<Rightarrow> 'a list \<Rightarrow> 'a list" where
  "arraySort cmp xs = foldr (insertBy cmp) xs []"

text \<open>
  The rank tables \<^verbatim>\<open>prioRank\<close> and \<^verbatim>\<open>statusRank\<close>, and \<^verbatim>\<open>table[key] || 99\<close>. Every
  rank in the tables is non-zero, so the fallback applies exactly to keys that are
  found neither in the table nor on the prototype. A key that names an inherited
  member yields that member, an object, which is truthy. Two such values are the
  same exactly when the names are; a difference with one of them is NaN.
\<close>

datatype rank = Rank int | Member string

definition prioRank :: "string \<rightharpoonup> int" where
  "prioRank = map_of [(''HIGH'', 1), (''MID'', 2), (''LOW'', 3), ([], 4)]"

definition statusRank :: "string \<rightharpoonup> int" where
  "statusRank = map_of [(''Not started'', 1), (''In progress'', 2), (''Done'', 3), ([], 4)]"

definition rankOr99 :: "(string \<rightharpoonup> int) \<Rightarrow> jsval \<Rightarrow> rank" where
  "rankOr99 table v =
     (let key = toStr v
      in case table key of
           Some r \<Rightarrow> Rank r
         | None \<Rightarrow> if key \<in> set objectPrototypeNames then Member key else Rank 99)"

fun rankSub :: "rank \<Rightarrow> rank \<Rightarrow> number" where
  "rankSub (Rank x) (Rank y) = Num (x - y)"
| "rankSub a b = NaN"

definition MAX_SAFE_INTEGER :: int where
  "MAX_SAFE_INTEGER = 9007199254740991"

definition getTime :: "host \<Rightarrow> page \<Rightarrow> number" where
  "getTime h p =
     (case date (getPrimaryWhen h p) of
        None \<Rightarrow> Num MAX_SAFE_INTEGER
      | Some w \<Rightarrow> dateGetTime w)"

text \<open>
  Subtraction and \<^verbatim>\<open>!==\<close> on two numbers that are time values or NaN. The code
  subtracts in floating point; on integers of this size the rounded difference has the
  sign of the exact one, and only the sign is read.
\<close>

fun numSub :: "number \<Rightarrow> number \<Rightarrow> number" where
  "numSub (Num x) (Num y) = Num (x - y)"
| "numSub a b = NaN"

fun strictNe :: "number \<Rightarrow> number \<Rightarrow> bool" where
  "strictNe (Num x) (Num y) = (x \<noteq> y)"
| "strictNe a b = True"

definition comparator :: "host \<Rightarrow> page \<Rightarrow> page \<Rightarrow> number" where
  "comparator h a b =
     (let ap = orElse (readProp a ''Priority Level'') (Str []);
          bp = orElse (readProp b ''Priority Level'') (Str []);
          aP = rankOr99 prioRank ap;
          bP = rankOr99 prioRank bp
      in if aP \<noteq> bP then rankSub aP bP
         else (let at = getTime h a; bt = getTime h b
               in if strictNe at bt then numSub at bt
                  else (let as = rankOr99 statusRank (orElse (readProp a ''Status'') (Str []));
                            bs = rankOr99 statusRank (orElse (readProp b ''Status'') (Str []))
                        in rankSub as bs)))"

subsection \<open>Overdue and scheduled\<close>

record timed =
  timed_date :: date
  timed_line :: coach_line

record buckets =
  overdue :: "coach_line list"
  scheduled :: "coach_line list"
  scheduledTimed :: "timed list"

text \<open>One round of the loop over the sorted items; \<^verbatim>\<open>push\<close> appends.\<close>

definition pushPage :: "host \<Rightarrow> int \<Rightarrow> buckets \<Rightarrow> page \<Rightarrow> buckets" where
  "pushPage h now st pg =
     (let pw = getPrimaryWhen h pg
      in case date pw of
           Some dt \<Rightarrow>
             if dateLt dt now then st\<lparr> overdue := overdue st @ [asCoachLine h pg (which pw) now] \<rparr>
             else (let ln = asCoachLine h pg (which pw) now
                   in st\<lparr> scheduled := scheduled st @ [ln],
                          scheduledTimed := scheduledTimed st @ [\<lparr> timed_date = dt, timed_line = ln \<rparr>] \<rparr>)
         | None \<Rightarrow> st\<lparr> scheduled := scheduled st @ [asCoachLine h pg ''do'' now] \<rparr>)"

definition partitionPages :: "host \<Rightarrow> int \<Rightarrow> page list \<Rightarrow> buckets" where
  "partitionPages h now items =
     foldl (pushPage h now) \<lparr> overdue = [], scheduled = [], scheduledTimed = [] \<rparr> items"

subsection \<open>Gaps\<close>

record gap =
  window :: string
  suggestions :: "jsval list"

text \<open>\<^verbatim>\<open>(a, b) => a.date - b.date\<close>.\<close>

definition byDate :: "timed \<Rightarrow> timed \<Rightarrow> number" where
  "byDate a b = numSub (dateGetTime (timed_date a)) (dateGetTime (timed_date b))"

text \<open>
  \<^verbatim>\<open>diffMin = (b - a) / 60000; diffMin >= 60\<close>. The quotient is at least the integer 60
  exactly when its integer part is. A comparison with NaN is false.
\<close>

fun diffMinAtLeast60 :: "date \<Rightarrow> date \<Rightarrow> bool" where
  "diffMinAtLeast60 (Date a) (Date b) = ((b - a) div 60000 \<ge> 60)"
| "diffMinAtLeast60 a b = False"

definition gapRecord :: "host \<Rightarrow> page list \<Rightarrow> date \<Rightarrow> date \<Rightarrow> gap" where
  "gapRecord h items a b =
     \<lparr> window = timeLabel h a @ enDash @ timeLabel h b,
       suggestions =
         map (\<lambda>p. readProp p ''Name'')
           (take 2 (filter (\<lambda>p. orElse (readProp p ''Priority Level'') (Str []) \<noteq> Str ''HIGH'') items)) \<rparr>"

text \<open>The loop over \<open>i\<close> from 0 to \<open>length - 2\<close>, on the pair at \<open>i\<close> and \<open>i + 1\<close>.\<close>

fun gapScan :: "host \<Rightarrow> page list \<Rightarrow> timed list \<Rightarrow> gap list" where
  "gapScan h items (x # y # rest) =
     (if diffMinAtLeast60 (timed_date x) (timed_date y)
      then gapRecord h items (timed_date x) (timed_date y) # gapScan h items (y # rest)
      else gapScan h items (y # rest))"
| "gapScan h items [x] = []"
| "gapScan h items [] = []"

subsection \<open>The report\<close>

record status_mix =
  notStarted :: nat
  inProgress :: nat
  done_count :: nat

record quick_tally =
  total :: nat
  high :: nat
  dueHard :: nat
  doCount :: nat
  statusMix :: status_mix

record today_report =
  report_overdue :: "coach_line list"
  report_scheduled :: "coach_line list"
  report_gaps :: "gap list"
  quickTally :: quick_tally

text \<open>
  The body of \<^verbatim>\<open>/analysis/today\<close> from the fetched items on. The header line and the
  closing nudge are fixed texts around the date and are left out.
\<close>

definition analysisToday :: "host \<Rightarrow> page list \<Rightarrow> int \<Rightarrow> today_report" where
  "analysisToday h fetched now =
     (let items = arraySort (comparator h) fetched;
          st = partitionPages h now items;
          sortedTimed = arraySort byDate (scheduledTimed st)
      in \<lparr> report_overdue = overdue st,
           report_scheduled = scheduled st,
           report_gaps = gapScan h items sortedTimed,
           quickTally =
             \<lparr> total = length items,
               high = length (filter (\<lambda>p. readProp p ''Priority Level'' = Str ''HIGH'') items),
               dueHard = length (filter (\<lambda>p. strTruthy (rawStart (readProp p ''Due Date''))) items),
               doCount = length (filter (\<lambda>p. strTruthy (rawStart (readProp p ''Do Date''))) items),
               statusMix =
                 \<lparr> notStarted = length (filter (\<lambda>p. readProp p ''Status'' = Str ''Not started'') items),
                   inProgress = length (filter (\<lambda>p. readProp p ''Status'' = Str ''In progress'') items),
                   done_count = length (filter (\<lambda>p. readProp p ''Status'' = Str ''Done'') items) \<rparr> \<rparr> \<rparr>)"

section \<open>Period and weekly aggregation\<close>

definition getPriority :: "page \<Rightarrow> jsval" where
  "getPriority p = orElse (readProp p ''Priority Level'') (Str [])"

definition getStatus :: "page \<Rightarrow> jsval" where
  "getStatus p = orElse (readProp p ''Status'') (Str [])"

definition getType :: "page \<Rightarrow> jsval" where
  "getType p = orElse (readProp p ''Type'') (Str [])"

definition getAlign :: "page \<Rightarrow> jsval" where
  "getAlign p = orElse (readProp p ''Alignment'') (Str [])"

definition highPriority :: "page list \<Rightarrow> page list" where
  "highPriority items = filter (\<lambda>p. getPriority p = Str ''HIGH'') items"

definition strategicWins :: "page list \<Rightarrow> page list" where
  "strategicWins items =
     filter (\<lambda>p. let pr = getPriority p in pr = Str ''MID'' \<or> pr = Str ''LOW'' \<or> pr = Str []) items"

text \<open>\<^verbatim>\<open>Date.now() + 48 * 3600 * 1000\<close>.\<close>

definition soonAfter :: "int \<Rightarrow> int" where
  "soonAfter now = now + 48 * 3600 * 1000"

text \<open>The filter of \<^verbatim>\<open>/analysis/7day\<close>: a missing start counts as \<^verbatim>\<open>Infinity\<close>.\<close>

definition riskWatch7dayTest :: "host \<Rightarrow> int \<Rightarrow> page \<Rightarrow> bool" where
  "riskWatch7dayTest h soon p =
     (let st = getStatus p;
          doStart = rawStart (readProp p ''Do Date'');
          dueStart = rawStart (readProp p ''Due Date'');
          first = orStr doStart dueStart;
          t = (case first of
                 None \<Rightarrow> Infinity
               | Some s \<Rightarrow> if s = [] then Infinity else dateGetTime (newDate h s))
      in st = Str ''Not started'' \<and> numLt t soon)"

definition riskWatch7day :: "host \<Rightarrow> page list \<Rightarrow> int \<Rightarrow> page list" where
  "riskWatch7day h items now = filter (riskWatch7dayTest h (soonAfter now)) items"

text \<open>The filter of \<^verbatim>\<open>/analysis/period\<close>: a missing start gives \<^verbatim>\<open>false\<close> at once.\<close>

definition riskWatchPeriodTest :: "host \<Rightarrow> int \<Rightarrow> page \<Rightarrow> bool" where
  "riskWatchPeriodTest h soon p =
     (getStatus p = Str ''Not started'' \<and>
      (let dd = orStr (orStr (rawStart (readProp p ''Do Date'')) (rawStart (readProp p ''Due Date''))) None
       in case dd of
            None \<Rightarrow> False
          | Some s \<Rightarrow> if s = [] then False else numLt (dateGetTime (newDate h s)) soon))"

definition riskWatchPeriod :: "host \<Rightarrow> page list \<Rightarrow> int \<Rightarrow> page list" where
  "riskWatchPeriod h items now = filter (riskWatchPeriodTest h (soonAfter now)) items"

text \<open>
  The resolved primary instant of a page, as \<^verbatim>\<open>getPrimaryWhen\<close> picks it: the do
  start if there is one, else the due start; absent when neither is set or the
  chosen text is not a valid date.
\<close>

definition primaryInstant :: "host \<Rightarrow> page \<Rightarrow> int option" where
  "primaryInstant h p =
     (case date (getPrimaryWhen h p) of
        None \<Rightarrow> None
      | Some InvalidDate \<Rightarrow> None
      | Some (Date t) \<Rightarrow> Some t)"

subsection \<open>Alignment counts\<close>

text \<open>
  \<^verbatim>\<open>groups\<close> is a plain object used as a dictionary. Its own properties are kept
  here as an association list in creation order. A value is a number, or a string
  once an inherited member has been read and "incremented".

  \<^verbatim>\<open>m[a]\<close> reads the own property, else the inherited member, else \<^verbatim>\<open>undefined\<close>.
  In \<^verbatim>\<open>(m[a] || 0) + 1\<close> a number is incremented; a string, a function or an object
  is turned into text and \<^verbatim>\<open>"1"\<close> is appended. \<open>memberText\<close> is the text of an
  inherited member as Node prints it.
\<close>

datatype tally_value = Count nat | Text string

definition memberText :: "string \<Rightarrow> string" where
  "memberText a =
     (if a = ''__proto__'' then ''[object Object]''
      else ''function '' @ (if a = ''constructor'' then ''Object'' else a) @ ''() { [native code] }'')"

definition plusOne :: "tally_value option \<Rightarrow> string \<Rightarrow> tally_value" where
  "plusOne own a =
     (case own of
        Some (Count c) \<Rightarrow> Count (c + 1)
      | Some (Text s) \<Rightarrow> if s = [] then Count (0 + 1) else Text (s @ ''1'')
      | None \<Rightarrow> if a \<in> set objectPrototypeNames then Text (memberText a @ ''1'') else Count (0 + 1))"

text \<open>
  \<^verbatim>\<open>m[a] = v\<close> overwrites the value of an existing key in place and appends a new key
  at the end. The key \<^verbatim>\<open>__proto__\<close> is the inherited setter, which ignores a value
  that is no object: nothing is stored.
\<close>

fun store :: "(string \<times> tally_value) list \<Rightarrow> string \<Rightarrow> tally_value \<Rightarrow> (string \<times> tally_value) list" where
  "store [] a v = [(a, v)]"
| "store ((k, c) # m) a v = (if k = a then (k, v) # m else (k, c) # store m a v)"

definition bump :: "(string \<times> tally_value) list \<Rightarrow> string \<Rightarrow> (string \<times> tally_value) list" where
  "bump m a =
     (let v = plusOne (map_of m a) a
      in if a = ''__proto__'' then m else store m a v)"

text \<open>\<^verbatim>\<open>getAlign(p) || 'Unassigned'\<close>, as the property key it becomes.\<close>

definition alignLabel :: "page \<Rightarrow> string" where
  "alignLabel p = toStr (orElse (getAlign p) (Str ''Unassigned''))"

definition groups :: "page list \<Rightarrow> (string \<times> tally_value) list" where
  "groups items = foldl (\<lambda>m p. bump m (alignLabel p)) [] items"

text \<open>
  \<^verbatim>\<open>Object.entries\<close> lists the own properties in the order of the language: first
  the keys that are array indices (canonical decimal numerals below \<open>2^32 - 1\<close>) by
  ascending value, then every other key in creation order.
\<close>

definition isDigit :: "char \<Rightarrow> bool" where
  "isDigit c = (48 \<le> (of_char c :: nat) \<and> (of_char c :: nat) \<le> 57)"

definition decimal :: "string \<Rightarrow> nat" where
  "decimal s = foldl (\<lambda>n c. 10 * n + (of_char c - 48)) 0 s"

definition isArrayIndex :: "string \<Rightarrow> bool" where
  "isArrayIndex s =
     (s \<noteq> [] \<and> list_all isDigit s \<and> (s = ''0'' \<or> hd s \<noteq> CHR ''0'') \<and> decimal s < 2 ^ 32 - 1)"

definition objectEntries :: "(string \<times> 'v) list \<Rightarrow> (string \<times> 'v) list" where
  "objectEntries m =
     sort_key (\<lambda>kv. decimal (fst kv)) (filter (\<lambda>kv. isArrayIndex (fst kv)) m)
     @ filter (\<lambda>kv. \<not> isArrayIndex (fst kv)) m"

record alignment_count =
  alignment :: string
  tally :: tally_value

definition alignmentCheck :: "page list \<Rightarrow> alignment_count list" where
  "alignmentCheck items = map (\<lambda>kv. \<lparr> alignment = fst kv, tally = snd kv \<rparr>) (objectEntries (groups items))"

section \<open>The window of today\<close>

text \<open>
  Time values are milliseconds since the epoch. The calendar functions are those of
  the language definition: the civil date of a day number and back (proleptic
  Gregorian; months count from 1 here and from 0 in \<open>MonthFromTime\<close> and \<open>MakeDay\<close>),
  \<open>LocalTime\<close> and \<open>UTC\<close> for the zone the process runs in, given by its offset
  function \<open>localTZA\<close>.
\<close>

definition msPerDay :: int where
  "msPerDay = 86400000"

definition civilFromDays :: "int \<Rightarrow> int \<times> int \<times> int" where
  "civilFromDays z =
     (let z' = z + 719468;
          era = z' div 146097;
          doe = z' - era * 146097;
          yoe = (doe - doe div 1460 + doe div 36524 - doe div 146096) div 365;
          doy = doe - (365 * yoe + yoe div 4 - yoe div 100);
          mp = (5 * doy + 2) div 153;
          dd = doy - (153 * mp + 2) div 5 + 1;
          mm = (if mp < 10 then mp + 3 else mp - 9);
          yy = yoe + era * 400
      in (if mm \<le> 2 then yy + 1 else yy, mm, dd))"

definition daysFromCivil :: "int \<Rightarrow> int \<Rightarrow> int \<Rightarrow> int" where
  "daysFromCivil yy mm dd =
     (let y' = (if mm \<le> 2 then yy - 1 else yy);
          era = y' div 400;
          yoe = y' - era * 400;
          mp = (mm + 9) mod 12;
          doy = (153 * mp + 2) div 5 + dd - 1;
          doe = yoe * 365 + yoe div 4 - yoe div 100 + doy
      in era * 146097 + doe - 719468)"

definition YearFromTime :: "int \<Rightarrow> int" where
  "YearFromTime t = fst (civilFromDays (t div msPerDay))"

definition MonthFromTime :: "int \<Rightarrow> int" where
  "MonthFromTime t = fst (snd (civilFromDays (t div msPerDay))) - 1"

definition DateFromTime :: "int \<Rightarrow> int" where
  "DateFromTime t = snd (snd (civilFromDays (t div msPerDay)))"

definition MakeDay :: "int \<Rightarrow> int \<Rightarrow> int \<Rightarrow> int" where
  "MakeDay yr mo dt = daysFromCivil (yr + mo div 12) (mo mod 12 + 1) 1 + dt - 1"

definition MakeTime :: "int \<Rightarrow> int \<Rightarrow> int \<Rightarrow> int \<Rightarrow> int" where
  "MakeTime hr mi sec ms = hr * 3600000 + mi * 60000 + sec * 1000 + ms"

definition MakeDate :: "int \<Rightarrow> int \<Rightarrow> int" where
  "MakeDate dy tm = dy * msPerDay + tm"

definition LocalTime :: "(int \<Rightarrow> bool \<Rightarrow> int) \<Rightarrow> int \<Rightarrow> int" where
  "LocalTime localTZA t = t + localTZA t True"

definition UTC :: "(int \<Rightarrow> bool \<Rightarrow> int) \<Rightarrow> int \<Rightarrow> int" where
  "UTC localTZA t = t - localTZA t False"

text \<open>
  \<^verbatim>\<open>new Date(y, m, d, h, mi, s)\<close>: the fields are read in the zone of the process; a
  year from 0 to 99 means 1900 plus that year.
\<close>

definition dateOfFields :: "(int \<Rightarrow> bool \<Rightarrow> int) \<Rightarrow> int \<Rightarrow> int \<Rightarrow> int \<Rightarrow> int \<Rightarrow> int \<Rightarrow> int \<Rightarrow> int" where
  "dateOfFields localTZA yr mo dt hr mi sec =
     (let yr' = (if 0 \<le> yr \<and> yr \<le> 99 then 1900 + yr else yr)
      in UTC localTZA (MakeDate (MakeDay yr' mo dt) (MakeTime hr mi sec 0)))"

text \<open>
  \<^verbatim>\<open>toISOString\<close>: the UTC fields with fixed widths, six digits and a sign for a year
  outside 0 to 9999; a RangeError on a time value no date can hold.
\<close>

definition padNum :: "nat \<Rightarrow> int \<Rightarrow> string" where
  "padNum w n = map (\<lambda>i. char_of (48 + (n div 10 ^ i) mod 10)) (rev [0..<w])"

datatype error = RangeError

definition toISOString :: "int \<Rightarrow> error + string" where
  "toISOString t =
     (if \<bar>t\<bar> > 8640000000000000 then Inl RangeError
      else (let c = civilFromDays (t div msPerDay);
                yr = fst c;
                tod = t mod msPerDay;
                yearText = (if 0 \<le> yr \<and> yr \<le> 9999 then padNum 4 yr
                            else (if yr < 0 then ''-'' else ''+'') @ padNum 6 \<bar>yr\<bar>)
            in Inr (yearText @ ''-'' @ padNum 2 (fst (snd c)) @ ''-'' @ padNum 2 (snd (snd c))
                    @ ''T'' @ padNum 2 (tod div 3600000) @ '':'' @ padNum 2 (tod div 60000 mod 60)
                    @ '':'' @ padNum 2 (tod div 1000 mod 60) @ ''.'' @ padNum 3 (tod mod 1000) @ ''Z'')))"

text \<open>
  \<^verbatim>\<open>startEndOfToday\<close> reads the clock (\<open>now\<close>). \<open>zoneOffset\<close> is the offset of the
  configured zone \<^verbatim>\<open>TZ\<close> at an instant. \<^verbatim>\<open>now.toLocaleString('en-US', {timeZone: TZ})\<close>
  prints the wall clock of that zone down to the second, and \<^verbatim>\<open>new Date\<close> reads the
  text back as a time in the zone of the process; the clock is taken to be far from
  the ends of the range of dates, so that these intermediate dates are valid.
\<close>

record today_window =
  startISO :: string
  endISO :: string
  civil_y :: int
  civil_m :: int
  civil_d :: int

definition startEndOfToday :: "(int \<Rightarrow> int) \<Rightarrow> (int \<Rightarrow> bool \<Rightarrow> int) \<Rightarrow> int \<Rightarrow> error + today_window" where
  "startEndOfToday zoneOffset localTZA now =
     (let wall = now + zoneOffset now;
          chicagoNow = UTC localTZA (wall - wall mod 1000);
          delta = now - chicagoNow;
          yr = YearFromTime (LocalTime localTZA chicagoNow);
          mo = MonthFromTime (LocalTime localTZA chicagoNow);
          dt = DateFromTime (LocalTime localTZA chicagoNow);
          startLocal = dateOfFields localTZA yr mo dt 0 0 0;
          endLocal = dateOfFields localTZA yr mo dt 23 59 59
      in case toISOString (startLocal + delta) of
           Inl e \<Rightarrow> Inl e
         | Inr s \<Rightarrow>
             (case toISOString (endLocal + delta) of
                Inl e \<Rightarrow> Inl e
              | Inr e \<Rightarrow> Inr \<lparr> startISO = s, endISO = e, civil_y = yr, civil_m = mo + 1, civil_d = dt \<rparr>))"

section \<open>Flexible local date and time\<close>

text \<open>
  \<^verbatim>\<open>toISOLocal(dateStr, timeStr)\<close> exists in two variants. Both take the date text and
  an optional time text and return a string; neither has a failing branch. Array
  elements and destructured variables that may be \<^verbatim>\<open>undefined\<close> or \<^verbatim>\<open>null\<close> are
  options.
\<close>

text \<open>\<^verbatim>\<open>s.split(c)\<close> for a one-character separator.\<close>

fun splitOn :: "char \<Rightarrow> string \<Rightarrow> string list" where
  "splitOn c [] = [[]]"
| "splitOn c (x # xs) =
     (if x = c then [] # splitOn c xs
      else (case splitOn c xs of [] \<Rightarrow> [[x]] | w # ws \<Rightarrow> (x # w) # ws))"

text \<open>\<^verbatim>\<open>xs[i]\<close>: \<^verbatim>\<open>undefined\<close> past the end.\<close>

definition elemAt :: "'a list \<Rightarrow> nat \<Rightarrow> 'a option" where
  "elemAt xs i = (if i < length xs then Some (xs ! i) else None)"

text \<open>\<^verbatim>\<open>s.padStart(n, c)\<close> for a one-character filler.\<close>

definition padStart :: "nat \<Rightarrow> char \<Rightarrow> string \<Rightarrow> string" where
  "padStart n c s = replicate (n - length s) c @ s"

text \<open>\<^verbatim>\<open>String(v)\<close> and \<^verbatim>\<open>`${v}`\<close> on a string that may be \<^verbatim>\<open>undefined\<close>.\<close>

definition stringOf :: "string option \<Rightarrow> string" where
  "stringOf v = (case v of None \<Rightarrow> ''undefined'' | Some s \<Rightarrow> s)"

text \<open>\<^verbatim>\<open>timeStr ? `${timeStr}:00` : '00:00:00'\<close>.\<close>

definition timePart :: "string option \<Rightarrow> string" where
  "timePart timeStr = (if strTruthy timeStr then stringOf timeStr @ '':00'' else ''00:00:00'')"

text \<open>
  The variant of the analysis server: the parts are destructured at once, and the
  year decides whether they are used.
\<close>

definition toISOLocal :: "string \<Rightarrow> string option \<Rightarrow> string" where
  "toISOLocal dateStr timeStr =
     (let parts = (if CHR ''/'' \<in> set dateStr then map Some (splitOn CHR ''/'' dateStr)
                   else [None, None, None]);
          m = Option.bind (elemAt parts 0) id;
          d = Option.bind (elemAt parts 1) id;
          y = Option.bind (elemAt parts 2) id;
          isoBase = (if strTruthy y
                     then (let mm = padStart 2 CHR ''0'' (stringOf m);
                               dd = padStart 2 CHR ''0'' (stringOf d)
                           in stringOf y @ ''-'' @ mm @ ''-'' @ dd)
                     else dateStr)
      in isoBase @ ''T'' @ timePart timeStr)"

text \<open>The variant of \<^verbatim>\<open>server.js\<close>: any text with a slash is taken apart.\<close>

definition toISOLocal_server :: "string \<Rightarrow> string option \<Rightarrow> string" where
  "toISOLocal_server dateStr timeStr =
     (let asParts = (if CHR ''/'' \<in> set dateStr then Some (splitOn CHR ''/'' dateStr) else None);
          isoBase = (case asParts of
                       Some ps \<Rightarrow>
                         (let m = elemAt ps 0; d = elemAt ps 1; y = elemAt ps 2;
                              mm = padStart 2 CHR ''0'' (stringOf m);
                              dd = padStart 2 CHR ''0'' (stringOf d)
                          in stringOf y @ ''-'' @ mm @ ''-'' @ dd)
                     | None \<Rightarrow> dateStr)
      in isoBase @ ''T'' @ timePart timeStr)"

section \<open>Notions of the specification\<close>

text \<open>
  The schedule of an item after the data model, read straight off the property bag
  and the host's parser, with none of the code's helpers: the start text of a date
  property (a date property that holds a non-empty start), the instant such a text
  denotes (when it parses to a time value a date can hold), the do instant and the
  due instant of an item, and its primary instant: that of the do start if the item
  has one, else that of the due start, else none.
\<close>

definition dateStart :: "page \<Rightarrow> string \<Rightarrow> string option" where
  "dateStart p key =
     (case properties p key of
        Some (DateProp (Some dv)) \<Rightarrow>
          (case start dv of None \<Rightarrow> None | Some s \<Rightarrow> if s = [] then None else Some s)
      | _ \<Rightarrow> None)"

definition instantOfText :: "host \<Rightarrow> string \<Rightarrow> int option" where
  "instantOfText h s =
     (case dateParse h s of
        None \<Rightarrow> None
      | Some t \<Rightarrow> if - 8640000000000000 \<le> t \<and> t \<le> 8640000000000000 then Some t else None)"

definition itemInstant :: "host \<Rightarrow> page \<Rightarrow> string \<Rightarrow> int option" where
  "itemInstant h p key = (case dateStart p key of None \<Rightarrow> None | Some s \<Rightarrow> instantOfText h s)"

definition primaryText :: "page \<Rightarrow> string option" where
  "primaryText p =
     (case dateStart p ''Do Date'' of Some s \<Rightarrow> Some s | None \<Rightarrow> dateStart p ''Due Date'')"

definition resolvedInstant :: "host \<Rightarrow> page \<Rightarrow> int option" where
  "resolvedInstant h p = (case primaryText p of None \<Rightarrow> None | Some s \<Rightarrow> instantOfText h s)"

text \<open>
  The two questions the daily loop answers for an item: whether its primary instant
  lies strictly before the reference instant, and which coach line stands for it:
  the line against "do" when the item has a do start or no start at all, against
  "due" when it has a due start only.
\<close>

definition isOverdue :: "host \<Rightarrow> int \<Rightarrow> page \<Rightarrow> bool" where
  "isOverdue h now p = (case resolvedInstant h p of None \<Rightarrow> False | Some t \<Rightarrow> t < now)"

definition lineKind :: "page \<Rightarrow> string" where
  "lineKind p =
     (if dateStart p ''Do Date'' \<noteq> None then ''do''
      else if dateStart p ''Due Date'' \<noteq> None then ''due'' else ''do'')"

definition pushedLine :: "host \<Rightarrow> int \<Rightarrow> page \<Rightarrow> coach_line" where
  "pushedLine h now p = asCoachLine h p (lineKind p) now"

text \<open>
  A well-formed item, after the data model: its priority is HIGH, MID, LOW or unset,
  its status is "Not started", "In progress", "Done" or unset, and its primary start,
  when it has one, denotes an instant. \<open>validDate\<close> says of the date the code resolves
  that it is no invalid date.
\<close>

definition validDate :: "host \<Rightarrow> page \<Rightarrow> bool" where
  "validDate h p = (date (getPrimaryWhen h p) \<noteq> Some InvalidDate)"

definition wellFormed :: "host \<Rightarrow> page \<Rightarrow> bool" where
  "wellFormed h p =
     ((let pr = readProp p ''Priority Level''
       in pr = Null \<or> pr = Str ''HIGH'' \<or> pr = Str ''MID'' \<or> pr = Str ''LOW'')
      \<and> (let st = readProp p ''Status''
          in st = Null \<or> st = Str ''Not started'' \<or> st = Str ''In progress'' \<or> st = Str ''Done'')
      \<and> (case primaryText p of None \<Rightarrow> True | Some s \<Rightarrow> instantOfText h s \<noteq> None))"

text \<open>
  The sort key as the specification words it: the priority rank (HIGH 1, MID 2, LOW 3,
  unset 4), the primary instant with a missing instant above every instant, and the
  status rank ("Not started" 1, "In progress" 2, "Done" 3, unset 4), compared in this
  order.
\<close>

definition priorityRank :: "page \<Rightarrow> int" where
  "priorityRank p =
     (let pr = readProp p ''Priority Level''
      in if pr = Str ''HIGH'' then 1 else if pr = Str ''MID'' then 2 else if pr = Str ''LOW'' then 3 else 4)"

definition statusRankOf :: "page \<Rightarrow> int" where
  "statusRankOf p =
     (let st = readProp p ''Status''
      in if st = Str ''Not started'' then 1 else if st = Str ''In progress'' then 2
         else if st = Str ''Done'' then 3 else 4)"

definition sortKey :: "host \<Rightarrow> page \<Rightarrow> int \<times> int option \<times> int" where
  "sortKey h p = (priorityRank p, resolvedInstant h p, statusRankOf p)"

fun instantLess :: "int option \<Rightarrow> int option \<Rightarrow> bool" where
  "instantLess (Some a) (Some b) = (a < b)"
| "instantLess (Some a) None = True"
| "instantLess None b = False"

fun keyLe :: "int \<times> int option \<times> int \<Rightarrow> int \<times> int option \<times> int \<Rightarrow> bool" where
  "keyLe (p1, t1, s1) (p2, t2, s2) =
     (p1 < p2 \<or> (p1 = p2 \<and> (instantLess t1 t2 \<or> (t1 = t2 \<and> s1 \<le> s2))))"

text \<open>
  The three numbers the comparator reads off a page, in the order it compares them.
  On a page whose date is invalid the time is NaN, and on a page whose label names an
  inherited member the rank is no number; neither has a place in this key.
\<close>

fun rankValue :: "rank \<Rightarrow> int" where
  "rankValue (Rank r) = r"
| "rankValue (Member n) = 0"

definition codeKey :: "host \<Rightarrow> page \<Rightarrow> int \<times> int \<times> int" where
  "codeKey h p =
     (rankValue (rankOr99 prioRank (orElse (readProp p ''Priority Level'') (Str []))),
      (case getTime h p of Num t \<Rightarrow> t | _ \<Rightarrow> 0),
      rankValue (rankOr99 statusRank (orElse (readProp p ''Status'') (Str []))))"

text \<open>
  Entries of the timed list: the time value of an entry with a valid date, and the
  order of two such entries by time.
\<close>

definition timedInstant :: "timed \<Rightarrow> int" where
  "timedInstant e = (case timed_date e of Date t \<Rightarrow> t | InvalidDate \<Rightarrow> 0)"

definition validTimed :: "timed \<Rightarrow> bool" where
  "validTimed e = (case timed_date e of Date t \<Rightarrow> True | InvalidDate \<Rightarrow> False)"

definition ascending :: "timed \<Rightarrow> timed \<Rightarrow> bool" where
  "ascending a b =
     (case (timed_date a, timed_date b) of (Date x, Date y) \<Rightarrow> x \<le> y | _ \<Rightarrow> False)"

text \<open>
  The keys of a list in first-seen order, as the specification words the order of the
  alignment counts.
\<close>

fun firstSeen :: "'a list \<Rightarrow> 'a list" where
  "firstSeen [] = []"
| "firstSeen (x # xs) = x # filter (\<lambda>y. y \<noteq> x) (firstSeen xs)"

text \<open>
  The order in which the labels come out: those that are array indices first, by
  ascending value, then the others as they stand.
\<close>

definition indicesFirst :: "string list \<Rightarrow> string list" where
  "indicesFirst ks = sort_key decimal (filter isArrayIndex ks) @ filter (\<lambda>k. \<not> isArrayIndex k) ks"

text \<open>
  The shapes the specification names, as patterns: \<open>9\<close> in a pattern stands for a
  digit, every other character for itself. So \<open>''99/99/9999''\<close> is MM/DD/YYYY and
  \<open>''9999-99-99T99:99:99''\<close> is the shape of the result.
\<close>

fun shape :: "string \<Rightarrow> string \<Rightarrow> bool" where
  "shape [] [] = True"
| "shape (p # ps) (c # cs) = ((if p = CHR ''9'' then isDigit c else c = p) \<and> shape ps cs)"
| "shape [] (c # cs) = False"
| "shape (p # ps) [] = False"

section \<open>Inputs for the worked examples\<close>

text \<open>
  A host that knows the three instants of the examples (09:00, 09:30 and 11:00 on
  2024-06-15 in America/Chicago, that is 14:00, 14:30 and 16:00 UTC) and a way to
  write pages down.
\<close>

definition examplePage :: "string \<Rightarrow> (string \<times> property) list \<Rightarrow> page" where
  "examplePage i ps = \<lparr> page_id = i, properties = map_of ps \<rparr>"

definition dateOn :: "string \<Rightarrow> property" where
  "dateOn s = DateProp (Some \<lparr> start = Some s, end_date = None, time_zone = None \<rparr>)"

definition exampleParse :: "string \<Rightarrow> int option" where
  "exampleParse s =
     (if s = ''2024-06-15T09:00:00.000-05:00'' then Some 1718460000000
      else if s = ''2024-06-15T09:30:00.000-05:00'' then Some 1718461800000
      else if s = ''2024-06-15T11:00:00.000-05:00'' then Some 1718467200000
      else None)"

definition exampleLabel :: "date \<Rightarrow> string" where
  "exampleLabel d =
     (if d = Date 1718460000000 then ''9:00 AM''
      else if d = Date 1718461800000 then ''9:30 AM''
      else if d = Date 1718467200000 then ''11:00 AM''
      else ''Invalid Date'')"

definition exampleHost :: host where
  "exampleHost = \<lparr> dateParse = exampleParse, timeLabel = exampleLabel \<rparr>"

definition aligned :: "string \<Rightarrow> string option \<Rightarrow> page" where
  "aligned i a = examplePage i [(''Alignment'', SelectProp a)]"

definition taskPage :: "string \<Rightarrow> string option \<Rightarrow> string option \<Rightarrow> string option \<Rightarrow> string option \<Rightarrow> page" where
  "taskPage i prio st doStart dueStart =
     examplePage i
       ([(''Name'', TitleProp [i]), (''Priority Level'', SelectProp prio), (''Status'', StatusProp st)]
        @ (case doStart of None \<Rightarrow> [] | Some s \<Rightarrow> [(''Do Date'', dateOn s)])
        @ (case dueStart of None \<Rightarrow> [] | Some s \<Rightarrow> [(''Due Date'', dateOn s)]))"

definition exampleTasks :: "page list" where
  "exampleTasks =
     [taskPage ''a'' (Some ''LOW'') (Some ''Not started'') None (Some ''2024-06-15T09:00:00.000-05:00''),
      taskPage ''c'' (Some ''HIGH'') (Some ''In progress'') (Some ''2024-06-15T11:00:00.000-05:00'') None,
      taskPage ''d'' (Some ''HIGH'') (Some ''Not started'') (Some ''2024-06-15T11:00:00.000-05:00'') None,
      taskPage ''f'' (Some ''HIGH'') (Some ''Done'') (Some ''2024-06-15T09:30:00.000-05:00'') None,
      taskPage ''b'' (Some ''HIGH'') (Some ''Not started'') None None,
      examplePage ''e'' []]"

definition exampleTimed :: "page list" where
  "exampleTimed =
     [taskPage ''Review'' (Some ''MID'') (Some ''Not started'') (Some ''2024-06-15T11:00:00.000-05:00'') None,
      taskPage ''Standup'' (Some ''HIGH'') (Some ''Not started'') (Some ''2024-06-15T09:00:00.000-05:00'') None,
      taskPage ''Call'' (Some ''LOW'') (Some ''In progress'') None (Some ''2024-06-15T09:30:00.000-05:00'')]"

definition callPage :: page where
  "callPage = taskPage ''Call'' (Some ''LOW'') (Some ''In progress'') None (Some ''2024-06-15T09:30:00.000-05:00'')"

definition exampleMixed :: "page list" where
  "exampleMixed = exampleTimed @ [taskPage ''Someday'' None None None None]"

text \<open>Chicago in summer (five hours behind UTC), and a process that runs in UTC.\<close>

definition chicagoSummer :: "int \<Rightarrow> int" where
  "chicagoSummer t = - (5 * 3600000)"

definition utcZone :: "int \<Rightarrow> bool \<Rightarrow> int" where
  "utcZone t isUTC = 0"

section \<open>Theorems\<close>

subsection \<open>The code's reading of dates and the data model\<close>

lemma startOf_dateStart: "startOf (readProp pg key) = dateStart pg key"
  by (auto simp: startOf_def orStr_def strTruthy_def rawStart_def readProp_def nameOrNull_def dateStart_def
      split: option.splits property.splits)

lemma newDate_instantOfText:
  "newDate h s = (case instantOfText h s of None \<Rightarrow> InvalidDate | Some t \<Rightarrow> Date t)"
  by (auto simp: newDate_def instantOfText_def split: option.splits)

lemma getPrimaryWhen_spec:
  "getPrimaryWhen h p =
     \<lparr> which = (if dateStart p ''Do Date'' \<noteq> None then ''do'' else ''due''),
       iso = primaryText p,
       date = map_option (newDate h) (primaryText p) \<rparr>"
  by (auto simp: getPrimaryWhen_def startOf_dateStart primaryText_def tsLocal_def Let_def
      split: option.splits)

lemmas task_simps =
  taskPage_def examplePage_def dateOn_def exampleHost_def exampleParse_def
  readProp_def nameOrNull_def orElse_def rawStart_def startOf_def orStr_def strTruthy_def
  getPrimaryWhen_def tsLocal_def newDate_def Let_def

lemmas model_simps =
  taskPage_def examplePage_def dateOn_def exampleHost_def exampleParse_def
  dateStart_def instantOfText_def itemInstant_def primaryText_def resolvedInstant_def

subsection \<open>Coach lines\<close>

text \<open>
  C9. For every item and reference time, the coach line built for \<^verbatim>\<open>"do"\<close> suggests a
  reminder exactly when the item's do instant exists and lies strictly after the
  reference time, and the coach line built for \<^verbatim>\<open>"due"\<close> does so exactly when its due
  instant exists and lies strictly after it. For an item due at 09:30 with no do
  date: seen from 09:00 the "due" line suggests a reminder, seen from 09:30 it does
  not, and the "do" line never does.
\<close>

theorem suggestReminder_iff:
  "suggestReminder (asCoachLine h pg ''do'' now) = (\<exists>t. itemInstant h pg ''Do Date'' = Some t \<and> now < t)
   \<and> suggestReminder (asCoachLine h pg ''due'' now) = (\<exists>t. itemInstant h pg ''Due Date'' = Some t \<and> now < t)
   \<and> suggestReminder (asCoachLine exampleHost callPage ''due'' 1718460000000)
   \<and> \<not> suggestReminder (asCoachLine exampleHost callPage ''due'' 1718461800000)
   \<and> \<not> suggestReminder (asCoachLine exampleHost callPage ''do'' 1718460000000)"
proof -
  have general: "suggestReminder (asCoachLine h pg wh now)
                   = (\<exists>t. itemInstant h pg (if wh = ''do'' then ''Do Date'' else ''Due Date'') = Some t \<and> now < t)"
    for h pg wh now
    by (auto simp: asCoachLine_def startOf_dateStart newDate_instantOfText itemInstant_def Let_def
        split: option.splits)
  have run: "suggestReminder (asCoachLine exampleHost callPage ''due'' 1718460000000)"
    "\<not> suggestReminder (asCoachLine exampleHost callPage ''due'' 1718461800000)"
    "\<not> suggestReminder (asCoachLine exampleHost callPage ''do'' 1718460000000)"
    by (simp_all add: asCoachLine_def callPage_def task_simps)
  from general [of h pg "''do''" now] general [of h pg "''due''" now] run
  show ?thesis
    by simp
qed

theorem suggestReminder_iff_witness:
  "itemInstant exampleHost callPage ''Due Date'' = Some 1718461800000
   \<and> suggestReminder (asCoachLine exampleHost callPage ''due'' 1718461799999)
   \<and> \<not> suggestReminder (asCoachLine exampleHost callPage ''due'' 1718461800000)
   \<and> itemInstant exampleHost callPage ''Do Date'' = None
   \<and> \<not> suggestReminder (asCoachLine exampleHost callPage ''do'' 0)"
proof -
  have due: "itemInstant exampleHost callPage ''Due Date'' = Some 1718461800000"
    and do: "itemInstant exampleHost callPage ''Do Date'' = None"
    by (simp_all add: callPage_def model_simps)
  show ?thesis
    using suggestReminder_iff [of exampleHost callPage 1718461799999, THEN conjunct2, THEN conjunct1]
      suggestReminder_iff [of exampleHost callPage 1718461800000, THEN conjunct2, THEN conjunct1]
      suggestReminder_iff [of exampleHost callPage 0, THEN conjunct1]
    by (simp add: due do)
qed

subsection \<open>Risk watch\<close>

lemma startOf_alt: "startOf v = (if strTruthy (rawStart v) then rawStart v else None)"
  by (simp add: startOf_def orStr_def)

lemma primaryInstant_alt:
  "primaryInstant h p =
     (case orStr (rawStart (readProp p ''Do Date'')) (rawStart (readProp p ''Due Date'')) of
        None \<Rightarrow> None
      | Some s \<Rightarrow> if s = [] then None else (case newDate h s of Date t \<Rightarrow> Some t | InvalidDate \<Rightarrow> None))"
  by (auto simp: primaryInstant_def getPrimaryWhen_def tsLocal_def startOf_def orStr_def strTruthy_def Let_def
      split: option.splits date.splits)

lemma riskWatch7dayTest_iff:
  "riskWatch7dayTest h soon p =
     (getStatus p = Str ''Not started'' \<and> (\<exists>t. primaryInstant h p = Some t \<and> t < soon))"
  by (auto simp: riskWatch7dayTest_def primaryInstant_alt Let_def split: option.splits date.splits)


lemma riskWatchPeriodTest_iff:
  "riskWatchPeriodTest h soon p =
     (getStatus p = Str ''Not started'' \<and> (\<exists>t. primaryInstant h p = Some t \<and> t < soon))"
  by (auto simp: riskWatchPeriodTest_def primaryInstant_alt orStr_def strTruthy_def Let_def
      split: option.splits date.splits)

text \<open>
  C10. The risk-watch filter of \<^verbatim>\<open>/analysis/7day\<close> (a missing primary instant becomes
  \<^verbatim>\<open>Infinity\<close>, then \<^verbatim>\<open>t < soon\<close>) and the one of \<^verbatim>\<open>/analysis/period\<close> (false when
  the primary instant is missing, else the strict comparison with \<^verbatim>\<open>soon\<close>) accept the
  same pages, for every page and every value of \<^verbatim>\<open>soon\<close>; so the two handlers select
  the same items from any list.
\<close>

theorem riskWatch_7day_period_equiv:
  "riskWatch7dayTest h soon p = riskWatchPeriodTest h soon p
   \<and> riskWatch7day h items now = riskWatchPeriod h items now"
proof -
  have same: "riskWatch7dayTest h s q = riskWatchPeriodTest h s q" for s q
    by (simp add: riskWatch7dayTest_iff riskWatchPeriodTest_iff)
  then have "riskWatch7dayTest h (soonAfter now) = riskWatchPeriodTest h (soonAfter now)"
    by (intro ext)
  then show ?thesis
    by (simp add: riskWatch7day_def riskWatchPeriod_def same)
qed





subsection \<open>Alignment counts\<close>

lemma set_firstSeen: "set (firstSeen ls) = set ls"
  by (induction ls) auto

lemma distinct_firstSeen: "distinct (firstSeen ls)"
  by (induction ls) auto

lemma firstSeen_snoc:
  "firstSeen (ls @ [x]) = (if x \<in> set ls then firstSeen ls else firstSeen ls @ [x])"
  by (induction ls) auto

lemma map_of_keyed:
  "map_of (map (\<lambda>a. (a, f a)) ks) x = (if x \<in> set ks then Some (f x) else None)"
  by (induction ks) auto

lemma store_keyed_in:
  "distinct ks \<Longrightarrow> x \<in> set ks \<Longrightarrow>
   store (map (\<lambda>a. (a, f a)) ks) x v = map (\<lambda>a. (a, if a = x then v else f a)) ks"
  by (induction ks) auto

lemma store_keyed_notin:
  "x \<notin> set ks \<Longrightarrow> store (map (\<lambda>a. (a, f a)) ks) x v = map (\<lambda>a. (a, f a)) ks @ [(x, v)]"
  by (induction ks) auto

lemma proto_is_inherited: "''__proto__'' \<in> set objectPrototypeNames"
  by (simp add: objectPrototypeNames_def)

lemma bump_counted:
  assumes "x \<notin> set objectPrototypeNames"
  shows "bump (map (\<lambda>a. (a, Count (count_list ls a))) (firstSeen ls)) x
           = map (\<lambda>a. (a, Count (count_list (ls @ [x]) a))) (firstSeen (ls @ [x]))"
proof -
  have np: "x \<noteq> ''__proto__''"
    using assms proto_is_inherited by auto
  show ?thesis
  proof (cases "x \<in> set ls")
    case True
    then show ?thesis
      using assms np
      by (simp add: bump_def plusOne_def map_of_keyed firstSeen_snoc store_keyed_in
          distinct_firstSeen set_firstSeen)
  next
    case False
    then show ?thesis
      using assms np
      by (auto simp: bump_def plusOne_def map_of_keyed firstSeen_snoc store_keyed_notin set_firstSeen)
  qed
qed

lemma foldl_bump:
  "list_all (\<lambda>a. a \<notin> set objectPrototypeNames) ls \<Longrightarrow>
   foldl bump [] ls = map (\<lambda>a. (a, Count (count_list ls a))) (firstSeen ls)"
proof (induction ls rule: rev_induct)
  case Nil
  then show ?case by simp
next
  case (snoc x ls)
  then have "foldl bump [] (ls @ [x])
               = bump (map (\<lambda>a. (a, Count (count_list ls a))) (firstSeen ls)) x"
    by simp
  also have "\<dots> = map (\<lambda>a. (a, Count (count_list (ls @ [x]) a))) (firstSeen (ls @ [x]))"
    using snoc.prems by (intro bump_counted) simp
  finally show ?case .
qed

lemma groups_alt: "groups items = foldl bump [] (map alignLabel items)"
  by (simp add: groups_def foldl_map)

lemma insort_key_keyed:
  "insort_key (\<lambda>kv. decimal (fst kv)) (a, f a) (map (\<lambda>a. (a, f a)) ks)
     = map (\<lambda>a. (a, f a)) (insort_key decimal a ks)"
  by (induction ks) auto

lemma sort_key_keyed:
  "sort_key (\<lambda>kv. decimal (fst kv)) (map (\<lambda>a. (a, f a)) ks) = map (\<lambda>a. (a, f a)) (sort_key decimal ks)"
  by (induction ks) (simp_all add: insort_key_keyed)

lemma objectEntries_keyed:
  "objectEntries (map (\<lambda>a. (a, f a)) ks) = map (\<lambda>a. (a, f a)) (indicesFirst ks)"
  by (simp add: objectEntries_def indicesFirst_def filter_map comp_def sort_key_keyed)

lemma indicesFirst_plain:
  assumes "list_all (\<lambda>k. \<not> isArrayIndex k) ks"
  shows "indicesFirst ks = ks"
proof -
  from assms have "filter isArrayIndex ks = []"
    by (simp add: list_all_iff filter_empty_conv)
  moreover from assms have "filter (\<lambda>k. \<not> isArrayIndex k) ks = ks"
    by (simp add: list_all_iff)
  ultimately show ?thesis
    by (simp add: indicesFirst_def)
qed

lemmas example_page_simps =
  aligned_def examplePage_def getAlign_def readProp_def nameOrNull_def orElse_def alignLabel_def

lemmas entries_simps =
  objectEntries_def isArrayIndex_def isDigit_def decimal_def bump_def plusOne_def
  objectPrototypeNames_def memberText_def

text \<open>
  C6, as amended. For every list of items in which no alignment label is the name of
  a member inherited from \<^verbatim>\<open>Object.prototype\<close>, \<^verbatim>\<open>alignmentCheck\<close> lists one entry
  per distinct label, each with the number of items carrying that label, where an
  item whose alignment is unset is counted under "Unassigned". The labels that are
  array indices come first, by ascending value, and all the others follow in
  first-seen order; so the order is the first-seen order whenever no label is an
  array index. For the alignments A, unset, A, B the result is A:2, Unassigned:1, B:1
  in that order.
\<close>

theorem alignmentCheck_counts_order:
  assumes "list_all (\<lambda>p. alignLabel p \<notin> set objectPrototypeNames) items"
  shows "alignmentCheck items =
           map (\<lambda>a. \<lparr> alignment = a, tally = Count (count_list (map alignLabel items) a) \<rparr>)
               (indicesFirst (firstSeen (map alignLabel items)))
         \<and> (list_all (\<lambda>p. \<not> isArrayIndex (alignLabel p)) items
              \<longrightarrow> map alignment (alignmentCheck items) = firstSeen (map alignLabel items))
         \<and> (\<forall>p s. (properties p ''Alignment'' = None \<or> properties p ''Alignment'' = Some (SelectProp None)
                      \<longrightarrow> alignLabel p = ''Unassigned'')
                  \<and> (properties p ''Alignment'' = Some (SelectProp (Some s)) \<and> s \<noteq> []
                      \<longrightarrow> alignLabel p = s))
         \<and> alignmentCheck [aligned ''1'' (Some ''A''), aligned ''2'' None,
                            aligned ''3'' (Some ''A''), aligned ''4'' (Some ''B'')]
             = [\<lparr>alignment = ''A'', tally = Count 2\<rparr>, \<lparr>alignment = ''Unassigned'', tally = Count 1\<rparr>,
                \<lparr>alignment = ''B'', tally = Count 1\<rparr>]"
proof -
  let ?ls = "map alignLabel items"
  have "list_all (\<lambda>a. a \<notin> set objectPrototypeNames) ?ls"
    using assms by (simp add: list_all_iff)
  then have "groups items = map (\<lambda>a. (a, Count (count_list ?ls a))) (firstSeen ?ls)"
    by (simp add: groups_alt foldl_bump)
  then have general: "alignmentCheck items =
           map (\<lambda>a. \<lparr> alignment = a, tally = Count (count_list ?ls a) \<rparr>) (indicesFirst (firstSeen ?ls))"
    by (simp add: alignmentCheck_def objectEntries_keyed comp_def)
  have plain: "map alignment (alignmentCheck items) = firstSeen ?ls"
    if "list_all (\<lambda>p. \<not> isArrayIndex (alignLabel p)) items"
  proof -
    from that have "list_all (\<lambda>k. \<not> isArrayIndex k) (firstSeen ?ls)"
      by (auto simp: list_all_iff set_firstSeen)
    then show ?thesis
      by (simp add: general indicesFirst_plain comp_def)
  qed
  have unset: "alignLabel p = ''Unassigned''"
    if "properties p ''Alignment'' = None \<or> properties p ''Alignment'' = Some (SelectProp None)" for p
    using that by (auto simp: alignLabel_def getAlign_def readProp_def nameOrNull_def orElse_def)
  have set: "alignLabel p = s"
    if "properties p ''Alignment'' = Some (SelectProp (Some s)) \<and> s \<noteq> []" for p s
    using that by (auto simp: alignLabel_def getAlign_def readProp_def nameOrNull_def orElse_def)
  have example: "alignmentCheck [aligned ''1'' (Some ''A''), aligned ''2'' None,
                            aligned ''3'' (Some ''A''), aligned ''4'' (Some ''B'')]
             = [\<lparr>alignment = ''A'', tally = Count 2\<rparr>, \<lparr>alignment = ''Unassigned'', tally = Count 1\<rparr>,
                \<lparr>alignment = ''B'', tally = Count 1\<rparr>]"
    by (simp add: alignmentCheck_def groups_def example_page_simps entries_simps)
  show ?thesis
    using general plain unset set example by blast
qed

theorem alignmentCheck_counts_order_witness:
  "list_all (\<lambda>p. alignLabel p \<notin> set objectPrototypeNames)
     [aligned ''1'' (Some ''B''), aligned ''2'' (Some ''10''), aligned ''3'' None,
      aligned ''4'' (Some ''9''), aligned ''5'' (Some ''B'')]
   \<and> indicesFirst (firstSeen [''B'', ''10'', ''Unassigned'', ''9'', ''B''])
       = [''9'', ''10'', ''B'', ''Unassigned'']
   \<and> alignmentCheck
     [aligned ''1'' (Some ''B''), aligned ''2'' (Some ''10''), aligned ''3'' None,
      aligned ''4'' (Some ''9''), aligned ''5'' (Some ''B'')]
     = [\<lparr>alignment = ''9'', tally = Count 1\<rparr>, \<lparr>alignment = ''10'', tally = Count 1\<rparr>,
        \<lparr>alignment = ''B'', tally = Count 2\<rparr>, \<lparr>alignment = ''Unassigned'', tally = Count 1\<rparr>]"
proof -
  let ?items = "[aligned ''1'' (Some ''B''), aligned ''2'' (Some ''10''), aligned ''3'' None,
      aligned ''4'' (Some ''9''), aligned ''5'' (Some ''B'')]"
  have ok: "list_all (\<lambda>p. alignLabel p \<notin> set objectPrototypeNames) ?items"
    by (simp add: objectPrototypeNames_def example_page_simps)
  have labels: "map alignLabel ?items = [''B'', ''10'', ''Unassigned'', ''9'', ''B'']"
    by (simp add: example_page_simps)
  have order: "indicesFirst (firstSeen [''B'', ''10'', ''Unassigned'', ''9'', ''B''])
                 = [''9'', ''10'', ''B'', ''Unassigned'']"
    by (simp add: indicesFirst_def isArrayIndex_def isDigit_def decimal_def)
  have "alignmentCheck ?items =
           map (\<lambda>a. \<lparr> alignment = a, tally = Count (count_list (map alignLabel ?items) a) \<rparr>)
               (indicesFirst (firstSeen (map alignLabel ?items)))"
    by (rule alignmentCheck_counts_order [OF ok, THEN conjunct1])
  then have "alignmentCheck ?items =
           map (\<lambda>a. \<lparr> alignment = a,
                       tally = Count (count_list [''B'', ''10'', ''Unassigned'', ''9'', ''B''] a) \<rparr>)
               [''9'', ''10'', ''B'', ''Unassigned'']"
    unfolding labels order .
  then have "alignmentCheck ?items
     = [\<lparr>alignment = ''9'', tally = Count 1\<rparr>, \<lparr>alignment = ''10'', tally = Count 1\<rparr>,
        \<lparr>alignment = ''B'', tally = Count 2\<rparr>, \<lparr>alignment = ''Unassigned'', tally = Count 1\<rparr>]"
    by simp
  with ok order show ?thesis
    by (intro conjI)
qed

text \<open>
  C6 as first stated fails. The order is not first-seen in general, since a label
  that is an array index is listed before every other label: for the alignments B, 1
  the entries come out as 1, B. And the entry of a label that names an inherited
  member is no count: two items labelled \<^verbatim>\<open>constructor\<close> give a text, and an item
  labelled \<^verbatim>\<open>__proto__\<close> gives no entry.
\<close>

theorem alignmentCheck_order_counterexample:
  "alignmentCheck [aligned ''1'' (Some ''B''), aligned ''2'' (Some ''1'')]
     = [\<lparr>alignment = ''1'', tally = Count 1\<rparr>, \<lparr>alignment = ''B'', tally = Count 1\<rparr>]
   \<and> map alignment (alignmentCheck [aligned ''1'' (Some ''B''), aligned ''2'' (Some ''1'')])
     \<noteq> firstSeen (map alignLabel [aligned ''1'' (Some ''B''), aligned ''2'' (Some ''1'')])
   \<and> alignmentCheck [aligned ''1'' (Some ''constructor''), aligned ''2'' (Some ''constructor'')]
     = [\<lparr>alignment = ''constructor'', tally = Text ''function Object() { [native code] }11''\<rparr>]
   \<and> alignmentCheck [aligned ''1'' (Some ''__proto__'')] = []"
  by (simp add: alignmentCheck_def groups_def example_page_simps entries_simps)

subsection \<open>Flexible local date and time\<close>

lemma splitOn_whole: "c \<notin> set a \<Longrightarrow> splitOn c a = [a]"
  by (induction a) auto

lemma splitOn_first: "c \<notin> set a \<Longrightarrow> splitOn c (a @ c # rest) = a # splitOn c rest"
  by (induction a) auto

lemma shape_length: "shape p s \<Longrightarrow> length s = length p"
  by (induction p s rule: shape.induct) auto

lemma shape_digits_no_sep:
  "shape p s \<Longrightarrow> list_all (\<lambda>c. c = CHR ''9'') p \<Longrightarrow> \<not> isDigit x \<Longrightarrow> x \<notin> set s"
  by (induction p s rule: shape.induct) auto

lemma shape_append: "shape p s \<Longrightarrow> shape q t \<Longrightarrow> shape (p @ q) (s @ t)"
  by (induction p s rule: shape.induct) auto

lemma slash_not_digit: "\<not> isDigit CHR ''/''"
  by (simp add: isDigit_def)

lemma toISOLocal_slash:
  assumes "CHR ''/'' \<notin> set m" "CHR ''/'' \<notin> set d" "CHR ''/'' \<notin> set y" "y \<noteq> []"
  shows "toISOLocal (m @ ''/'' @ d @ ''/'' @ y) t
           = y @ ''-'' @ padStart 2 CHR ''0'' m @ ''-'' @ padStart 2 CHR ''0'' d @ ''T'' @ timePart t"
proof -
  have "splitOn CHR ''/'' (m @ ''/'' @ d @ ''/'' @ y) = [m, d, y]"
    using assms by (simp add: splitOn_first splitOn_whole)
  then show ?thesis
    using assms by (simp add: toISOLocal_def elemAt_def strTruthy_def stringOf_def Let_def)
qed

lemma toISOLocal_plain:
  "CHR ''/'' \<notin> set s \<Longrightarrow> toISOLocal s t = s @ ''T'' @ timePart t"
  by (simp add: toISOLocal_def elemAt_def strTruthy_def Let_def)

text \<open>
  C7. The same calendar date written as MM/DD/YYYY and as YYYY-MM-DD, with the same
  time, gives the same result; the result has the shape YYYY-MM-DDTHH:MM:SS when the
  time is absent or written HH:MM; with an absent time the result ends in 00:00:00.
  In particular \<^verbatim>\<open>toISOLocal("06/15/2024","14:30")\<close> equals
  \<^verbatim>\<open>toISOLocal("2024-06-15","14:30")\<close>.
\<close>

theorem toISOLocal_formats_agree:
  assumes "shape ''99'' m" "shape ''99'' d" "shape ''9999'' y"
    and "t = None \<or> (\<exists>s. t = Some s \<and> shape ''99:99'' s)"
  shows "toISOLocal (m @ ''/'' @ d @ ''/'' @ y) t = toISOLocal (y @ ''-'' @ m @ ''-'' @ d) t
         \<and> shape ''9999-99-99T99:99:99'' (toISOLocal (m @ ''/'' @ d @ ''/'' @ y) t)
         \<and> toISOLocal (m @ ''/'' @ d @ ''/'' @ y) None = y @ ''-'' @ m @ ''-'' @ d @ ''T00:00:00''
         \<and> toISOLocal ''06/15/2024'' (Some ''14:30'') = toISOLocal ''2024-06-15'' (Some ''14:30'')"
proof -
  have nm: "CHR ''/'' \<notin> set m" and nd: "CHR ''/'' \<notin> set d" and ny: "CHR ''/'' \<notin> set y"
    using assms(1-3) shape_digits_no_sep slash_not_digit by fastforce+
  have lens: "length m = 2" "length d = 2" "length y = 4"
    using assms(1-3) shape_length by fastforce+
  then have ne: "y \<noteq> []" by auto
  have slash: "toISOLocal (m @ ''/'' @ d @ ''/'' @ y) t = y @ ''-'' @ m @ ''-'' @ d @ ''T'' @ timePart t" for t
    using toISOLocal_slash [OF nm nd ny ne] lens by (simp add: padStart_def)
  have dash: "toISOLocal (y @ ''-'' @ m @ ''-'' @ d) t = y @ ''-'' @ m @ ''-'' @ d @ ''T'' @ timePart t"
    using nm nd ny by (simp add: toISOLocal_plain)
  have tshape: "shape ''99:99:99'' (timePart t)"
    using assms(4) shape_append [of "''99:99''" _ "'':99''" "'':00''"]
    by (auto simp: timePart_def strTruthy_def stringOf_def isDigit_def dest: shape_length)
  have "shape (''9999'' @ ''-'' @ ''99'' @ ''-'' @ ''99'' @ ''T'' @ ''99:99:99'')
              (y @ ''-'' @ m @ ''-'' @ d @ ''T'' @ timePart t)"
    using assms(1-3) tshape by (intro shape_append) simp_all
  then have shp: "shape ''9999-99-99T99:99:99'' (toISOLocal (m @ ''/'' @ d @ ''/'' @ y) t)"
    using slash [of t] by simp
  have none: "toISOLocal (m @ ''/'' @ d @ ''/'' @ y) None = y @ ''-'' @ m @ ''-'' @ d @ ''T00:00:00''"
    using slash [of None] by (simp add: timePart_def strTruthy_def)
  have ex: "toISOLocal ''06/15/2024'' (Some ''14:30'') = toISOLocal ''2024-06-15'' (Some ''14:30'')"
    by (simp add: toISOLocal_def elemAt_def strTruthy_def stringOf_def padStart_def timePart_def Let_def)
  show ?thesis
    using slash [of t] dash shp none ex by simp
qed

theorem toISOLocal_formats_agree_witness:
  "shape ''99'' ''12'' \<and> shape ''99'' ''31'' \<and> shape ''9999'' ''1999'' \<and> shape ''99:99'' ''23:59''
   \<and> toISOLocal ''12/31/1999'' (Some ''23:59'') = toISOLocal ''1999-12-31'' (Some ''23:59'')
   \<and> toISOLocal ''12/31/1999'' (Some ''23:59'') = ''1999-12-31T23:59:00''
   \<and> toISOLocal ''12/31/1999'' None = ''1999-12-31T00:00:00''"
proof -
  have h: "shape ''99'' ''12''" "shape ''99'' ''31''" "shape ''9999'' ''1999''"
          "Some ''23:59'' = None \<or> (\<exists>s. Some ''23:59'' = Some s \<and> shape ''99:99'' s)"
    by (simp_all add: isDigit_def)
  show ?thesis
    using toISOLocal_formats_agree [OF h]
    by (simp add: isDigit_def toISOLocal_plain timePart_def strTruthy_def stringOf_def)
qed

text \<open>
  C8. A date text that matches neither MM/DD/YYYY nor YYYY-MM-DD is not rejected:
  both variants return a string built from it. For \<^verbatim>\<open>"tomorrow"\<close> both return
  \<^verbatim>\<open>"tomorrowT00:00:00"\<close>; for \<^verbatim>\<open>"06/15"\<close> one returns \<^verbatim>\<open>"06/15T00:00:00"\<close> and the
  other \<^verbatim>\<open>"undefined-06-15T00:00:00"\<close>.
\<close>

theorem toISOLocal_accepts_malformed:
  "\<not> shape ''99/99/9999'' ''tomorrow'' \<and> \<not> shape ''9999-99-99'' ''tomorrow''
   \<and> toISOLocal ''tomorrow'' None = ''tomorrowT00:00:00''
   \<and> toISOLocal_server ''tomorrow'' None = ''tomorrowT00:00:00''
   \<and> \<not> shape ''99/99/9999'' ''06/15'' \<and> \<not> shape ''9999-99-99'' ''06/15''
   \<and> toISOLocal ''06/15'' None = ''06/15T00:00:00''
   \<and> toISOLocal_server ''06/15'' None = ''undefined-06-15T00:00:00''"
  by (simp add: toISOLocal_def toISOLocal_server_def elemAt_def strTruthy_def stringOf_def padStart_def
      timePart_def isDigit_def Let_def)


subsection \<open>Daily focus: overdue and scheduled\<close>

lemma pushPage_cases:
  "pushPage h now st p =
     (if isOverdue h now p then st\<lparr> overdue := overdue st @ [pushedLine h now p] \<rparr>
      else st\<lparr> scheduled := scheduled st @ [pushedLine h now p],
               scheduledTimed := scheduledTimed st @
                 (case date (getPrimaryWhen h p) of
                    None \<Rightarrow> []
                  | Some dt \<Rightarrow> [\<lparr> timed_date = dt, timed_line = pushedLine h now p \<rparr>]) \<rparr>)"
  by (auto simp: pushPage_def isOverdue_def pushedLine_def lineKind_def resolvedInstant_def
        getPrimaryWhen_spec newDate_instantOfText primaryText_def Let_def
      split: option.splits)

lemma foldl_pushPage:
  "foldl (pushPage h now) st items =
     st\<lparr> overdue := overdue st @ map (pushedLine h now) (filter (isOverdue h now) items),
         scheduled := scheduled st @ map (pushedLine h now) (filter (\<lambda>p. \<not> isOverdue h now p) items),
         scheduledTimed := scheduledTimed st @
           concat (map (\<lambda>p. case date (getPrimaryWhen h p) of
                               None \<Rightarrow> []
                             | Some dt \<Rightarrow> [\<lparr> timed_date = dt, timed_line = pushedLine h now p \<rparr>])
                       (filter (\<lambda>p. \<not> isOverdue h now p) items)) \<rparr>"
  (is "_ = ?R st items")
proof (induction items arbitrary: st)
  case Nil
  show ?case by simp
next
  case (Cons p items)
  have "foldl (pushPage h now) st (p # items) = foldl (pushPage h now) (pushPage h now st p) items"
    by simp
  also have "\<dots> = ?R (pushPage h now st p) items"
    by (rule Cons.IH)
  also have "\<dots> = ?R st (p # items)"
    by (cases "isOverdue h now p") (simp_all add: pushPage_cases)
  finally show ?case .
qed

lemma mset_insertBy: "mset (insertBy cmp x ys) = add_mset x (mset ys)"
  by (induction ys) auto

lemma mset_arraySort: "mset (arraySort cmp xs) = mset xs"
  by (induction xs) (auto simp: arraySort_def mset_insertBy)

lemma length_arraySort: "length (arraySort cmp xs) = length xs"
  using mset_arraySort [of cmp xs] by (metis size_mset)

lemma line_id_asCoachLine: "line_id (asCoachLine h p wh now) = page_id p"
  by (simp add: asCoachLine_def Let_def)

lemma line_id_pushedLine: "line_id (pushedLine h now p) = page_id p"
  by (simp add: pushedLine_def line_id_asCoachLine)

lemma example_partition:
  "map (resolvedInstant exampleHost) exampleMixed
     = [Some 1718467200000, Some 1718460000000, Some 1718461800000, None]
   \<and> map page_id (filter (isOverdue exampleHost 1718461800000) exampleMixed) = [''Standup'']
   \<and> map page_id (filter (\<lambda>p. \<not> isOverdue exampleHost 1718461800000 p) exampleMixed)
       = [''Review'', ''Call'', ''Someday'']"
  by (simp add: isOverdue_def exampleMixed_def exampleTimed_def model_simps)

text \<open>
  C1. For every list of items and every reference instant, the partition loop puts
  each item into exactly one of the two lists: \<open>overdue\<close> is the coach lines of the
  items whose primary instant is strictly before the reference instant, and
  \<open>scheduled\<close> the coach lines of all the others (primary instant at or after the
  reference instant, or none), both in input order; so the two lengths add up to the
  number of items. The same holds for the report of \<^verbatim>\<open>/analysis/today\<close>, which sorts
  the fetched items first: its two lists hold one line per fetched item. For items
  at 11:00, 09:00, 09:30 and one with no date, seen from 09:30, the item at 09:00 is
  overdue and the three others are scheduled.
\<close>

theorem partition_exact:
  "overdue (partitionPages h now items) = map (pushedLine h now) (filter (isOverdue h now) items)
   \<and> scheduled (partitionPages h now items)
       = map (pushedLine h now) (filter (\<lambda>p. \<not> isOverdue h now p) items)
   \<and> length (overdue (partitionPages h now items)) + length (scheduled (partitionPages h now items))
       = length items
   \<and> mset (report_overdue (analysisToday h items now))
       = image_mset (pushedLine h now) (filter_mset (isOverdue h now) (mset items))
   \<and> mset (report_scheduled (analysisToday h items now))
       = image_mset (pushedLine h now) (filter_mset (\<lambda>p. \<not> isOverdue h now p) (mset items))
   \<and> length (report_overdue (analysisToday h items now))
       + length (report_scheduled (analysisToday h items now)) = length items
   \<and> map line_id (overdue (partitionPages exampleHost 1718461800000 exampleMixed)) = [''Standup'']
   \<and> map line_id (scheduled (partitionPages exampleHost 1718461800000 exampleMixed))
       = [''Review'', ''Call'', ''Someday'']"
proof -
  have ov: "overdue (partitionPages h now xs) = map (pushedLine h now) (filter (isOverdue h now) xs)"
    for h now xs
    by (simp add: partitionPages_def foldl_pushPage)
  have sc: "scheduled (partitionPages h now xs)
              = map (pushedLine h now) (filter (\<lambda>p. \<not> isOverdue h now p) xs)" for h now xs
    by (simp add: partitionPages_def foldl_pushPage)
  have len: "length (overdue (partitionPages h now xs)) + length (scheduled (partitionPages h now xs))
              = length xs" for xs
    by (simp add: ov sc sum_length_filter_compl)
  let ?s = "arraySort (comparator h) items"
  have rov: "report_overdue (analysisToday h items now) = overdue (partitionPages h now ?s)"
    and rsc: "report_scheduled (analysisToday h items now) = scheduled (partitionPages h now ?s)"
    by (simp_all add: analysisToday_def Let_def)
  have m1: "mset (report_overdue (analysisToday h items now))
       = image_mset (pushedLine h now) (filter_mset (isOverdue h now) (mset items))"
    by (simp add: rov ov mset_arraySort)
  have m2: "mset (report_scheduled (analysisToday h items now))
       = image_mset (pushedLine h now) (filter_mset (\<lambda>p. \<not> isOverdue h now p) (mset items))"
    by (simp add: rsc sc mset_arraySort)
  have l2: "length (report_overdue (analysisToday h items now))
       + length (report_scheduled (analysisToday h items now)) = length items"
    by (simp only: rov rsc len length_arraySort)
  have e1: "map line_id (overdue (partitionPages exampleHost 1718461800000 exampleMixed)) = [''Standup'']"
    by (simp add: partitionPages_def pushPage_def line_id_asCoachLine exampleMixed_def exampleTimed_def
        task_simps)
  have e2: "map line_id (scheduled (partitionPages exampleHost 1718461800000 exampleMixed))
       = [''Review'', ''Call'', ''Someday'']"
    by (simp add: partitionPages_def pushPage_def line_id_asCoachLine exampleMixed_def exampleTimed_def
        task_simps)
  from ov [of h now items] sc [of h now items] len [of items] m1 m2 l2 e1 e2
  show ?thesis
    by (intro conjI)
qed

theorem partition_exact_witness:
  "map (resolvedInstant exampleHost) exampleMixed
     = [Some 1718467200000, Some 1718460000000, Some 1718461800000, None]
   \<and> map line_id (overdue (partitionPages exampleHost 1718461800000 exampleMixed)) = [''Standup'']
   \<and> map line_id (scheduled (partitionPages exampleHost 1718461800000 exampleMixed))
       = [''Review'', ''Call'', ''Someday'']
   \<and> map line_id (overdue (partitionPages exampleHost 1718461800001 exampleMixed))
       = [''Standup'', ''Call'']"
proof -
  note run = partition_exact [of exampleHost 1718461800000 exampleMixed]
  note later = partition_exact [of exampleHost 1718461800001 exampleMixed, THEN conjunct1]
  have "map page_id (filter (isOverdue exampleHost 1718461800001) exampleMixed) = [''Standup'', ''Call'']"
    by (simp add: isOverdue_def exampleMixed_def exampleTimed_def model_simps)
  then have "map line_id (overdue (partitionPages exampleHost 1718461800001 exampleMixed))
       = [''Standup'', ''Call'']"
    by (simp add: later comp_def line_id_pushedLine)
  moreover have "map line_id (overdue (partitionPages exampleHost 1718461800000 exampleMixed))
       = [''Standup'']"
    using example_partition by (simp add: run [THEN conjunct1] comp_def line_id_pushedLine)
  moreover have "map line_id (scheduled (partitionPages exampleHost 1718461800000 exampleMixed))
       = [''Review'', ''Call'', ''Someday'']"
    using example_partition
    by (simp add: run [THEN conjunct2, THEN conjunct1] comp_def line_id_pushedLine)
  ultimately show ?thesis
    using example_partition by (intro conjI) simp_all
qed

subsection \<open>Daily focus: sorting\<close>

lemma wellFormed_prio:
  "wellFormed h p \<Longrightarrow>
   rankOr99 prioRank (orElse (readProp p ''Priority Level'') (Str [])) = Rank (priorityRank p)"
  by (auto simp: wellFormed_def priorityRank_def rankOr99_def prioRank_def orElse_def Let_def)

lemma wellFormed_status:
  "wellFormed h p \<Longrightarrow>
   rankOr99 statusRank (orElse (readProp p ''Status'') (Str [])) = Rank (statusRankOf p)"
  by (auto simp: wellFormed_def statusRankOf_def rankOr99_def statusRank_def orElse_def Let_def)

lemma newDate_bound: "newDate h s = Date t \<Longrightarrow> \<bar>t\<bar> \<le> 8640000000000000"
  by (auto simp: newDate_def split: option.splits if_splits)

lemma wellFormed_time:
  "wellFormed h p \<Longrightarrow>
   getTime h p = Num (case resolvedInstant h p of None \<Rightarrow> MAX_SAFE_INTEGER | Some t \<Rightarrow> t)
   \<and> (case resolvedInstant h p of None \<Rightarrow> True | Some t \<Rightarrow> t < MAX_SAFE_INTEGER)"
  by (auto simp: wellFormed_def getTime_def getPrimaryWhen_spec newDate_instantOfText resolvedInstant_def
        instantOfText_def MAX_SAFE_INTEGER_def
      split: option.splits if_splits)

lemma codeKey_wellFormed:
  "wellFormed h p \<Longrightarrow>
   codeKey h p = (priorityRank p, (case resolvedInstant h p of None \<Rightarrow> MAX_SAFE_INTEGER | Some t \<Rightarrow> t),
                  statusRankOf p)"
  by (simp add: codeKey_def wellFormed_prio wellFormed_status wellFormed_time)

lemma comparator_wellFormed:
  assumes "wellFormed h a" "wellFormed h b"
  shows "notAfter (comparator h a b) = (codeKey h a \<le> codeKey h b)"
  using assms
  by (auto simp: comparator_def codeKey_wellFormed wellFormed_prio wellFormed_status wellFormed_time Let_def)


lemma insertBy_insort:
  "wellFormed h x \<Longrightarrow> list_all (wellFormed h) ys \<Longrightarrow>
   insertBy (comparator h) x ys = insort_key (codeKey h) x ys"
  by (induction ys) (simp_all add: comparator_wellFormed)

lemma arraySort_sort_key:
  "list_all (wellFormed h) xs \<Longrightarrow> arraySort (comparator h) xs = sort_key (codeKey h) xs"
proof (induction xs)
  case Nil
  show ?case by (simp add: arraySort_def)
next
  case (Cons x xs)
  then have "list_all (wellFormed h) (sort_key (codeKey h) xs)"
    by (simp add: list_all_iff)
  with Cons show ?case
    by (simp add: arraySort_def insertBy_insort)
qed

lemma keyLe_codeKey:
  assumes "wellFormed h a" "wellFormed h b"
  shows "keyLe (sortKey h a) (sortKey h b) = (codeKey h a \<le> codeKey h b)"
  using assms wellFormed_time [of h a] wellFormed_time [of h b]
  by (cases "resolvedInstant h a"; cases "resolvedInstant h b")
     (auto simp: sortKey_def codeKey_wellFormed)

lemma sortKey_codeKey:
  assumes "wellFormed h a" "wellFormed h b"
  shows "(sortKey h a = sortKey h b) = (codeKey h a = codeKey h b)"
  using assms wellFormed_time [of h a] wellFormed_time [of h b]
  by (cases "resolvedInstant h a"; cases "resolvedInstant h b")
     (auto simp: sortKey_def codeKey_wellFormed)

lemma example_sort:
  "arraySort (comparator exampleHost) exampleTasks
     = [exampleTasks ! 3, exampleTasks ! 2, exampleTasks ! 1, exampleTasks ! 4,
        exampleTasks ! 0, exampleTasks ! 5]"
  by (simp add: arraySort_def comparator_def rankOr99_def prioRank_def statusRank_def
      objectPrototypeNames_def getTime_def MAX_SAFE_INTEGER_def exampleTasks_def task_simps)

text \<open>
  C2. For every list of well-formed items the daily sort returns a permutation of the
  items that is ordered by the three-key tuple (priority rank, then primary instant
  with missing instants last, then status rank), every item standing before every
  later one in that order, adjacent pairs included; and it is stable: the items of
  any one key keep their input order. Six items given as a, c, d, f, b, e come out
  as f, d, c, b, a, e: among the HIGH items the one at 09:30 stands before the two at
  11:00 although its status ranks last, the two at 11:00 stand by status, and the one
  with no date stands last although its status ranks first.
\<close>

theorem daily_sort_ordered_stable:
  assumes "list_all (wellFormed h) items"
  shows "mset (arraySort (comparator h) items) = mset items
         \<and> sorted_wrt (\<lambda>a b. keyLe (sortKey h a) (sortKey h b)) (arraySort (comparator h) items)
         \<and> (\<forall>k. filter (\<lambda>p. sortKey h p = k) (arraySort (comparator h) items)
                  = filter (\<lambda>p. sortKey h p = k) items)
         \<and> map page_id (arraySort (comparator exampleHost) exampleTasks)
             = [''f'', ''d'', ''c'', ''b'', ''a'', ''e'']"
proof -
  let ?out = "sort_key (codeKey h) items"
  have out: "arraySort (comparator h) items = ?out"
    using assms by (rule arraySort_sort_key)
  have wf: "wellFormed h p" if "p \<in> set items" for p
    using assms that by (simp add: list_all_iff)
  have perm: "mset ?out = mset items"
    by simp
  have "sorted_wrt (\<lambda>a b. codeKey h a \<le> codeKey h b) ?out"
    using sorted_sort_key [of "codeKey h" items] by (simp add: sorted_map)
  then have ordered: "sorted_wrt (\<lambda>a b. keyLe (sortKey h a) (sortKey h b)) ?out"
    by (rule sorted_wrt_mono_rel [rotated]) (simp add: keyLe_codeKey wf)
  have stable: "filter (\<lambda>p. sortKey h p = k) ?out = filter (\<lambda>p. sortKey h p = k) items" for k
  proof (cases "\<exists>q \<in> set items. sortKey h q = k")
    case True
    then obtain q where q: "q \<in> set items" "sortKey h q = k" by blast
    have same: "(sortKey h p = k) = (codeKey h p = codeKey h q)" if "p \<in> set items" for p
      using sortKey_codeKey [OF wf [OF that] wf [OF q(1)]] q(2) by simp
    have "filter (\<lambda>p. sortKey h p = k) ?out = filter (\<lambda>p. codeKey h p = codeKey h q) ?out"
      by (rule filter_cong) (simp_all add: same)
    also have "\<dots> = filter (\<lambda>p. codeKey h p = codeKey h q) items"
      by (rule sort_key_stable)
    also have "\<dots> = filter (\<lambda>p. sortKey h p = k) items"
      by (rule filter_cong) (simp_all add: same)
    finally show ?thesis .
  next
    case False
    then have "filter (\<lambda>p. sortKey h p = k) ?out = []" "filter (\<lambda>p. sortKey h p = k) items = []"
      by (auto simp: filter_empty_conv)
    then show ?thesis by simp
  qed
  have example: "map page_id (arraySort (comparator exampleHost) exampleTasks)
                   = [''f'', ''d'', ''c'', ''b'', ''a'', ''e'']"
    by (simp add: arraySort_def comparator_def rankOr99_def prioRank_def statusRank_def
        objectPrototypeNames_def getTime_def MAX_SAFE_INTEGER_def exampleTasks_def task_simps)
  from perm ordered stable example show ?thesis
    unfolding out by (intro conjI allI)
qed


theorem daily_sort_ordered_stable_witness:
  "list_all (wellFormed exampleHost) exampleTasks
   \<and> map page_id exampleTasks = [''a'', ''c'', ''d'', ''f'', ''b'', ''e'']
   \<and> map page_id (arraySort (comparator exampleHost) exampleTasks) = [''f'', ''d'', ''c'', ''b'', ''a'', ''e'']
   \<and> map (sortKey exampleHost) (arraySort (comparator exampleHost) exampleTasks)
       = [(1, Some 1718461800000, 3), (1, Some 1718467200000, 1), (1, Some 1718467200000, 2),
          (1, None, 1), (3, Some 1718460000000, 1), (4, None, 4)]
   \<and> mset (arraySort (comparator exampleHost) exampleTasks) = mset exampleTasks
   \<and> sorted_wrt (\<lambda>a b. keyLe (sortKey exampleHost a) (sortKey exampleHost b))
        (arraySort (comparator exampleHost) exampleTasks)"
proof -
  have wf: "list_all (wellFormed exampleHost) exampleTasks"
    by (simp add: wellFormed_def exampleTasks_def model_simps readProp_def nameOrNull_def)
  have ids: "map page_id exampleTasks = [''a'', ''c'', ''d'', ''f'', ''b'', ''e'']"
    by (simp add: exampleTasks_def taskPage_def examplePage_def)
  note run = example_sort
  have keys: "map (sortKey exampleHost)
                [exampleTasks ! 3, exampleTasks ! 2, exampleTasks ! 1, exampleTasks ! 4,
                 exampleTasks ! 0, exampleTasks ! 5]
       = [(1, Some 1718461800000, 3), (1, Some 1718467200000, 1), (1, Some 1718467200000, 2),
          (1, None, 1), (3, Some 1718460000000, 1), (4, None, 4)]"
    by (simp add: sortKey_def priorityRank_def statusRankOf_def exampleTasks_def model_simps
        readProp_def nameOrNull_def)
  have order: "map page_id [exampleTasks ! 3, exampleTasks ! 2, exampleTasks ! 1, exampleTasks ! 4,
                  exampleTasks ! 0, exampleTasks ! 5] = [''f'', ''d'', ''c'', ''b'', ''a'', ''e'']"
    by (simp add: exampleTasks_def taskPage_def examplePage_def)
  have sorted_ids: "map page_id (arraySort (comparator exampleHost) exampleTasks)
                      = [''f'', ''d'', ''c'', ''b'', ''a'', ''e'']"
    unfolding run by (rule order)
  have sorted_keys: "map (sortKey exampleHost) (arraySort (comparator exampleHost) exampleTasks)
       = [(1, Some 1718461800000, 3), (1, Some 1718467200000, 1), (1, Some 1718467200000, 2),
          (1, None, 1), (3, Some 1718460000000, 1), (4, None, 4)]"
    unfolding run by (rule keys)
  note sorted = daily_sort_ordered_stable [OF wf]
  from wf ids sorted_ids sorted_keys sorted [THEN conjunct1] sorted [THEN conjunct2, THEN conjunct1]
  show ?thesis
    by (intro conjI)
qed

subsection \<open>Daily focus: gaps\<close>

lemma gapScan_pairs:
  "gapScan h items ts =
     map (\<lambda>ab. gapRecord h items (timed_date (fst ab)) (timed_date (snd ab)))
       (filter (\<lambda>ab. diffMinAtLeast60 (timed_date (fst ab)) (timed_date (snd ab))) (zip ts (tl ts)))"
  by (induction h items ts rule: gapScan.induct) simp_all

lemma diffMin_minutes: "diffMinAtLeast60 (Date a) (Date b) = (b - a \<ge> 60 * 60000)"
  by auto

lemma byDate_valid:
  "validTimed a \<Longrightarrow> validTimed b \<Longrightarrow> notAfter (byDate a b) = (timedInstant a \<le> timedInstant b)"
  by (auto simp: validTimed_def byDate_def timedInstant_def split: date.splits)

lemma insertBy_byDate:
  "validTimed x \<Longrightarrow> list_all validTimed ys \<Longrightarrow> insertBy byDate x ys = insort_key timedInstant x ys"
  by (induction ys) (simp_all add: byDate_valid)

lemma arraySort_byDate:
  "list_all validTimed xs \<Longrightarrow> arraySort byDate xs = sort_key timedInstant xs"
proof (induction xs)
  case Nil
  show ?case by (simp add: arraySort_def)
next
  case (Cons x xs)
  then have "list_all validTimed (sort_key timedInstant xs)"
    by (simp add: list_all_iff)
  with Cons show ?case
    by (simp add: arraySort_def insertBy_byDate)
qed

lemma scheduledTimed_valid:
  assumes "list_all (validDate h) items"
  shows "list_all validTimed (scheduledTimed (partitionPages h now items))"
  using assms
  by (auto simp: partitionPages_def foldl_pushPage list_all_iff validTimed_def validDate_def
      split: option.splits date.splits)

lemma list_all_arraySort:
  "list_all P items \<Longrightarrow> list_all P (arraySort cmp items)"
  using mset_arraySort [of cmp items] by (metis list_all_iff set_mset_mset)


lemma example_gaps:
  "report_gaps (analysisToday exampleHost exampleTimed 1718456400000)
     = [\<lparr> window = ''9:30 AM'' @ enDash @ ''11:00 AM'', suggestions = [Str ''Review'', Str ''Call''] \<rparr>]"
proof -
  have sorted_items: "arraySort (comparator exampleHost) exampleTimed
                        = [exampleTimed ! 1, exampleTimed ! 0, exampleTimed ! 2]"
    by (simp add: arraySort_def comparator_def rankOr99_def prioRank_def statusRank_def
        objectPrototypeNames_def getTime_def
        MAX_SAFE_INTEGER_def exampleTimed_def task_simps)
  have dates: "map timed_date (scheduledTimed (partitionPages exampleHost 1718456400000
                  [exampleTimed ! 1, exampleTimed ! 0, exampleTimed ! 2]))
                = [Date 1718460000000, Date 1718467200000, Date 1718461800000]"
    by (simp add: partitionPages_def pushPage_def exampleTimed_def task_simps)
  show ?thesis
    unfolding analysisToday_def Let_def sorted_items
    by (simp add: partitionPages_def pushPage_def arraySort_def byDate_def gapRecord_def exampleLabel_def
        exampleTimed_def task_simps)
qed


text \<open>
  C3. For items whose primary dates are valid, the gap scan runs over the timed
  scheduled entries in ascending order of their instants, and reports a gap for
  exactly those consecutive pairs that are at least 60 minutes (3600000 ms) apart, in
  order. For three items
  at 09:00, 09:30 and 11:00 Chicago time, seen from 08:00, the only gap reported is
  9:30 AM to 11:00 AM.
\<close>

theorem gaps_exact:
  fixes h :: host and items :: "page list" and now :: int
  defines "sortedItems \<equiv> arraySort (comparator h) items"
  defines "ts \<equiv> arraySort byDate (scheduledTimed (partitionPages h now sortedItems))"
  assumes "list_all (validDate h) items"
  shows "sorted_wrt ascending ts
         \<and> report_gaps (analysisToday h items now)
             = map (\<lambda>ab. gapRecord h sortedItems (timed_date (fst ab)) (timed_date (snd ab)))
                 (filter (\<lambda>ab. diffMinAtLeast60 (timed_date (fst ab)) (timed_date (snd ab)))
                    (zip ts (tl ts)))
         \<and> (\<forall>a b. diffMinAtLeast60 (Date a) (Date b) = (b - a \<ge> 60 * 60000))
         \<and> report_gaps (analysisToday exampleHost exampleTimed 1718456400000)
             = [\<lparr> window = ''9:30 AM'' @ enDash @ ''11:00 AM'',
                  suggestions = [Str ''Review'', Str ''Call''] \<rparr>]"
proof -
  let ?raw = "scheduledTimed (partitionPages h now sortedItems)"
  have valid: "list_all validTimed ?raw"
    unfolding sortedItems_def using assms by (intro scheduledTimed_valid list_all_arraySort)
  then have ts: "ts = sort_key timedInstant ?raw"
    unfolding ts_def by (rule arraySort_byDate)
  have "sorted_wrt (\<lambda>a b. timedInstant a \<le> timedInstant b) (sort_key timedInstant ?raw)"
    using sorted_sort_key [of timedInstant ?raw] by (simp add: sorted_map)
  then have "sorted_wrt ascending (sort_key timedInstant ?raw)"
  proof (rule sorted_wrt_mono_rel [rotated])
    fix a b
    assume "a \<in> set (sort_key timedInstant ?raw)" "b \<in> set (sort_key timedInstant ?raw)"
      and le: "timedInstant a \<le> timedInstant b"
    then have "validTimed a" "validTimed b"
      using valid by (simp_all add: list_all_iff)
    with le show "ascending a b"
      by (auto simp: ascending_def validTimed_def timedInstant_def split: date.splits)
  qed
  then have asc: "sorted_wrt ascending ts"
    by (simp add: ts)
  have scan: "report_gaps (analysisToday h items now)
                 = map (\<lambda>ab. gapRecord h sortedItems (timed_date (fst ab)) (timed_date (snd ab)))
                     (filter (\<lambda>ab. diffMinAtLeast60 (timed_date (fst ab)) (timed_date (snd ab)))
                        (zip ts (tl ts)))"
    by (simp add: analysisToday_def Let_def gapScan_pairs ts_def sortedItems_def)
  show ?thesis
    using asc scan diffMin_minutes example_gaps by simp
qed

theorem gaps_exact_witness:
  "list_all (validDate exampleHost) exampleTimed
   \<and> sorted_wrt ascending
        (arraySort byDate (scheduledTimed (partitionPages exampleHost 1718456400000
           (arraySort (comparator exampleHost) exampleTimed))))
   \<and> map timed_date
        (arraySort byDate (scheduledTimed (partitionPages exampleHost 1718456400000
           (arraySort (comparator exampleHost) exampleTimed))))
       = [Date 1718460000000, Date 1718461800000, Date 1718467200000]
   \<and> map window (report_gaps (analysisToday exampleHost exampleTimed 1718456400000))
       = [''9:30 AM'' @ enDash @ ''11:00 AM'']"
proof -
  have wf: "list_all (validDate exampleHost) exampleTimed"
    by (simp add: validDate_def exampleTimed_def task_simps)
  have sorted_items: "arraySort (comparator exampleHost) exampleTimed
                        = [exampleTimed ! 1, exampleTimed ! 0, exampleTimed ! 2]"
    by (simp add: arraySort_def comparator_def rankOr99_def prioRank_def statusRank_def
        objectPrototypeNames_def getTime_def
        MAX_SAFE_INTEGER_def exampleTimed_def task_simps)
  have dates: "map timed_date
        (arraySort byDate (scheduledTimed (partitionPages exampleHost 1718456400000
           (arraySort (comparator exampleHost) exampleTimed))))
       = [Date 1718460000000, Date 1718461800000, Date 1718467200000]"
    unfolding sorted_items
    by (simp add: partitionPages_def pushPage_def arraySort_def byDate_def exampleTimed_def task_simps)
  note run = gaps_exact [OF wf, of 1718456400000]
  have asc: "sorted_wrt ascending
        (arraySort byDate (scheduledTimed (partitionPages exampleHost 1718456400000
           (arraySort (comparator exampleHost) exampleTimed))))"
    by (rule run [THEN conjunct1])
  have "report_gaps (analysisToday exampleHost exampleTimed 1718456400000)
             = [\<lparr> window = ''9:30 AM'' @ enDash @ ''11:00 AM'',
                  suggestions = [Str ''Review'', Str ''Call''] \<rparr>]"
    by (rule run [THEN conjunct2, THEN conjunct2, THEN conjunct2])
  then show ?thesis
    using wf dates asc by simp
qed



subsection \<open>The window of today\<close>

text \<open>
  C4. At 2024-06-15T18:00:00.000Z, with the zone five hours behind UTC, the window is
  2024-06-15T05:00:00.000Z to 2024-06-16T04:59:59.000Z: civil midnight to civil
  23:59:59 of June 15. Half a second later the clock's milliseconds are carried into
  both bounds, and the window starts at 05:00:00.500Z, not at civil midnight.
\<close>

theorem startEndOfToday_carries_milliseconds:
  "startEndOfToday chicagoSummer utcZone 1718474400000
     = Inr \<lparr> startISO = ''2024-06-15T05:00:00.000Z'', endISO = ''2024-06-16T04:59:59.000Z'',
             civil_y = 2024, civil_m = 6, civil_d = 15 \<rparr>
   \<and> startEndOfToday chicagoSummer utcZone 1718474400500
     = Inr \<lparr> startISO = ''2024-06-15T05:00:00.500Z'', endISO = ''2024-06-16T04:59:59.500Z'',
             civil_y = 2024, civil_m = 6, civil_d = 15 \<rparr>"
  by code_simp

end
